theory Spec2Isabelle
  imports Main "HOL-Library.Word" "HOL-Library.Monad_Syntax"
begin

unbundle bit_operations_syntax

section \<open>Data model\<close>

text \<open>
  A word is a C \<^verbatim>\<open>uint32_t\<close>: arithmetic wraps modulo \<open>2 ^ 32\<close>. The fixed-size C arrays
  (\<^verbatim>\<open>cells[RAM_SIZE]\<close>, \<^verbatim>\<open>registers[8]\<close>, \<^verbatim>\<open>address_registers[8]\<close>) are functions from
  the index; every array access of the interpreter is behind the bounds check the source
  makes, and the one access of the assembler that is not (\<^verbatim>\<open>emit\<close>) has its out-of-range
  case written out.
\<close>

type_synonym u32 = "32 word"

definition RAM_SIZE :: nat where
  "RAM_SIZE = 65536"

definition MAX_REGISTERS :: nat where
  "MAX_REGISTERS = 8"

definition MAX_ADDRESS_REGISTERS :: nat where
  "MAX_ADDRESS_REGISTERS = 8"

definition MAX_LABELS :: nat where
  "MAX_LABELS = 256"

text \<open>\<^verbatim>\<open>isa_instruction_t\<close> (isa.h).\<close>

definition ISA_LOADI :: u32 where "ISA_LOADI = 0x01"
definition ISA_LOADA :: u32 where "ISA_LOADA = 0x02"
definition ISA_LOADM :: u32 where "ISA_LOADM = 0x03"
definition ISA_STOREM :: u32 where "ISA_STOREM = 0x04"
definition ISA_ADD :: u32 where "ISA_ADD = 0x05"
definition ISA_SUB :: u32 where "ISA_SUB = 0x06"
definition ISA_MLP :: u32 where "ISA_MLP = 0x07"
definition ISA_DIV :: u32 where "ISA_DIV = 0x08"
definition ISA_AND :: u32 where "ISA_AND = 0x09"
definition ISA_OR :: u32 where "ISA_OR = 0x0A"
definition ISA_XOR :: u32 where "ISA_XOR = 0x0B"
definition ISA_JMP :: u32 where "ISA_JMP = 0x0C"
definition ISA_JZ :: u32 where "ISA_JZ = 0x0D"
definition ISA_JNZ :: u32 where "ISA_JNZ = 0x0E"
definition ISA_CMP :: u32 where "ISA_CMP = 0x0F"
definition ISA_HALT :: u32 where "ISA_HALT = 0xFF"

text \<open>\<^verbatim>\<open>AddrMode\<close> and \<^verbatim>\<open>OperandType\<close> (assembler.h).\<close>

definition ADDR_REGISTER :: u32 where "ADDR_REGISTER = 0"
definition ADDR_LITERAL :: u32 where "ADDR_LITERAL = 1"
definition OPERAND_REGISTER :: u32 where "OPERAND_REGISTER = 0"
definition OPERAND_NUMERIC :: u32 where "OPERAND_NUMERIC = 1"

text \<open>\<^verbatim>\<open>RAM\<close> (ram.h); the read-write lock is not part of the sequential model.\<close>

record RAM =
  cells :: "nat \<Rightarrow> u32"

text \<open>\<^verbatim>\<open>CPU\<close> (cpu.h).\<close>

record CPU =
  pc :: u32
  address_registers :: "nat \<Rightarrow> u32"
  registers :: "nat \<Rightarrow> u32"
  zero_flag :: bool
  negative_flag :: bool
  running :: bool

text \<open>\<^verbatim>\<open>AssemblyRange\<close> (assembler.h).\<close>

record AssemblyRange =
  start_address :: u32
  end_address :: u32
  error :: bool

section \<open>Memory (ram.c)\<close>

text \<open>
  A \<^verbatim>\<open>RAM *\<close> argument that the source tests against \<^verbatim>\<open>NULL\<close> is a \<open>RAM option\<close>; the
  \<^verbatim>\<open>uint32_t *output\<close> of \<^verbatim>\<open>ram_load\<close> is the cell it points to, \<open>None\<close> for \<^verbatim>\<open>NULL\<close>. Each
  operation returns its boolean result with the memory and the output cell after the call.
\<close>

definition is_address_valid :: "RAM option \<Rightarrow> u32 \<Rightarrow> bool" where
  "is_address_valid ram address =
     (case ram of
        None \<Rightarrow> False
      | Some _ \<Rightarrow> unat address < RAM_SIZE)"

definition ram_init :: RAM where
  "ram_init = \<lparr>cells = (\<lambda>_. 0)\<rparr>"

definition ram_store :: "RAM option \<Rightarrow> u32 \<Rightarrow> u32 \<Rightarrow> bool \<times> RAM option" where
  "ram_store ram address val =
     (case ram of
        None \<Rightarrow> (False, None)
      | Some r \<Rightarrow>
          if \<not> is_address_valid ram address then (False, ram)
          else (True, Some (r\<lparr>cells := (cells r)(unat address := val)\<rparr>)))"

definition ram_load :: "RAM option \<Rightarrow> u32 \<Rightarrow> u32 option \<Rightarrow> bool \<times> RAM option \<times> u32 option" where
  "ram_load ram address output =
     (case (ram, output) of
        (Some r, Some _) \<Rightarrow>
          if \<not> is_address_valid ram address then (False, ram, output)
          else (True, ram, Some (cells r (unat address)))
      | _ \<Rightarrow> (False, ram, output))"

section \<open>Processor state (cpu.c)\<close>

definition cpu_init :: CPU where
  "cpu_init = \<lparr>pc = 0, address_registers = (\<lambda>_. 0), registers = (\<lambda>_. 0),
     zero_flag = False, negative_flag = False, running = False\<rparr>"

section \<open>Validation (validation.c)\<close>

definition is_addr_literal_valid :: "u32 \<Rightarrow> bool" where
  "is_addr_literal_valid addr = (if RAM_SIZE \<le> unat addr then False else True)"

text \<open>The assembly-time index checks take a C \<^verbatim>\<open>int\<close>.\<close>

definition is_reg_index_valid_asm :: "int \<Rightarrow> bool" where
  "is_reg_index_valid_asm reg_index =
     (if reg_index < 0 \<or> int MAX_REGISTERS \<le> reg_index then False else True)"

definition is_addr_index_valid_asm :: "int \<Rightarrow> bool" where
  "is_addr_index_valid_asm addr_index =
     (if addr_index < 0 \<or> int MAX_ADDRESS_REGISTERS \<le> addr_index then False else True)"

definition is_memory_access_valid :: "u32 \<Rightarrow> u32 \<Rightarrow> bool" where
  "is_memory_access_valid start sz =
     (if RAM_SIZE \<le> unat start then False
      else if sz = 0 then True
      else let last = start + sz - 1 in
        if last < start then False
        else if RAM_SIZE \<le> unat last then False
        else True)"

text \<open>The run-time forms return the verdict with the processor state they leave.\<close>

definition is_reg_index_valid_runtime :: "u32 \<Rightarrow> CPU \<Rightarrow> bool \<times> CPU" where
  "is_reg_index_valid_runtime reg_index cpu =
     (if MAX_REGISTERS \<le> unat reg_index then (False, cpu\<lparr>running := False\<rparr>)
      else (True, cpu))"

definition is_addr_index_valid_runtime :: "u32 \<Rightarrow> CPU \<Rightarrow> bool \<times> CPU" where
  "is_addr_index_valid_runtime addr_index cpu =
     (if MAX_ADDRESS_REGISTERS \<le> unat addr_index then (False, cpu\<lparr>running := False\<rparr>)
      else (True, cpu))"

definition is_addr_literal_valid_runtime :: "u32 \<Rightarrow> CPU \<Rightarrow> bool \<times> CPU" where
  "is_addr_literal_valid_runtime addr cpu =
     (if RAM_SIZE \<le> unat addr then (False, cpu\<lparr>running := False\<rparr>)
      else (True, cpu))"

definition is_memory_access_valid_runtime :: "u32 \<Rightarrow> u32 \<Rightarrow> CPU \<Rightarrow> bool \<times> CPU" where
  "is_memory_access_valid_runtime start sz cpu =
     (if \<not> is_memory_access_valid start sz then (False, cpu\<lparr>running := False\<rparr>)
      else (True, cpu))"

section \<open>Interpreter (cpu_exec.c)\<close>

definition increase_pc :: "CPU \<Rightarrow> u32 \<Rightarrow> CPU" where
  "increase_pc cpu skip = cpu\<lparr>pc := pc cpu + skip\<rparr>"

text \<open>The index \<^verbatim>\<open>cpu->pc + skip\<close> is computed in \<^verbatim>\<open>uint32_t\<close>, so it wraps.\<close>

definition get_value_in_ram :: "RAM \<Rightarrow> CPU \<Rightarrow> u32 \<Rightarrow> u32" where
  "get_value_in_ram ram cpu skip =
     (let idx = pc cpu + skip in
      if RAM_SIZE \<le> unat idx then 0
      else cells ram (unat idx))"

text \<open>
  A handler returns its boolean result with the memory and the processor state it leaves
  behind.
\<close>

definition handle_loadi_execution :: "RAM \<Rightarrow> CPU \<Rightarrow> bool \<times> RAM \<times> CPU" where
  "handle_loadi_execution ram cpu =
     (let register_index = get_value_in_ram ram cpu 1;
          val = get_value_in_ram ram cpu 2 in
      case is_reg_index_valid_runtime register_index cpu of
        (False, cpu') \<Rightarrow> (False, ram, cpu')
      | (True, cpu') \<Rightarrow>
          (True, ram,
           increase_pc
             (cpu'\<lparr>registers := (registers cpu')(unat register_index := val),
                   zero_flag := (val = 0)\<rparr>) 3))"

definition handle_loada_execution :: "RAM \<Rightarrow> CPU \<Rightarrow> bool \<times> RAM \<times> CPU" where
  "handle_loada_execution ram cpu =
     (let address_index = get_value_in_ram ram cpu 1;
          address_literal = get_value_in_ram ram cpu 2 in
      case is_addr_index_valid_runtime address_index cpu of
        (False, cpu') \<Rightarrow> (False, ram, cpu')
      | (True, cpu') \<Rightarrow>
          (case is_addr_literal_valid_runtime address_literal cpu' of
             (False, cpu'') \<Rightarrow> (False, ram, cpu'')
           | (True, cpu'') \<Rightarrow>
               (True, ram,
                increase_pc
                  (cpu''\<lparr>address_registers :=
                     (address_registers cpu'')(unat address_index := address_literal)\<rparr>) 3)))"

text \<open>
  The address resolution shared by \<^verbatim>\<open>handle_loadm_execution\<close> and
  \<^verbatim>\<open>handle_storem_execution\<close>: the source repeats this block in both. \<open>None\<close> is the
  early \<^verbatim>\<open>return false\<close>.
\<close>

definition resolve_target_address :: "u32 \<Rightarrow> u32 \<Rightarrow> CPU \<Rightarrow> u32 option \<times> CPU" where
  "resolve_target_address mode operand cpu =
     (if mode = ADDR_LITERAL then
        (case is_addr_literal_valid_runtime operand cpu of
           (False, cpu') \<Rightarrow> (None, cpu')
         | (True, cpu') \<Rightarrow> (Some operand, cpu'))
      else
        (case is_addr_index_valid_runtime operand cpu of
           (False, cpu') \<Rightarrow> (None, cpu')
         | (True, cpu') \<Rightarrow> (Some (address_registers cpu' (unat operand)), cpu')))"

definition handle_loadm_execution :: "RAM \<Rightarrow> CPU \<Rightarrow> bool \<times> RAM \<times> CPU" where
  "handle_loadm_execution ram cpu =
     (let register_index = get_value_in_ram ram cpu 1;
          mode = get_value_in_ram ram cpu 2;
          operand = get_value_in_ram ram cpu 3 in
      case is_reg_index_valid_runtime register_index cpu of
        (False, cpu') \<Rightarrow> (False, ram, cpu')
      | (True, cpu') \<Rightarrow>
          (case resolve_target_address mode operand cpu' of
             (None, cpu'') \<Rightarrow> (False, ram, cpu'')
           | (Some target_address, cpu'') \<Rightarrow>
               (case is_memory_access_valid_runtime target_address 1 cpu'' of
                  (False, cpu3) \<Rightarrow> (False, ram, cpu3)
                | (True, cpu3) \<Rightarrow>
                    (let val = cells ram (unat target_address) in
                     (True, ram,
                      increase_pc
                        (cpu3\<lparr>registers := (registers cpu3)(unat register_index := val),
                              zero_flag := (val = 0)\<rparr>) 4)))))"

definition handle_storem_execution :: "RAM \<Rightarrow> CPU \<Rightarrow> bool \<times> RAM \<times> CPU" where
  "handle_storem_execution ram cpu =
     (let address = get_value_in_ram ram cpu 1;
          mode = get_value_in_ram ram cpu 2;
          register_index = get_value_in_ram ram cpu 3 in
      case is_reg_index_valid_runtime register_index cpu of
        (False, cpu') \<Rightarrow> (False, ram, cpu')
      | (True, cpu') \<Rightarrow>
          (case resolve_target_address mode address cpu' of
             (None, cpu'') \<Rightarrow> (False, ram, cpu'')
           | (Some target_address, cpu'') \<Rightarrow>
               (case is_memory_access_valid_runtime target_address 1 cpu'' of
                  (False, cpu3) \<Rightarrow> (False, ram, cpu3)
                | (True, cpu3) \<Rightarrow>
                    (True,
                     ram\<lparr>cells := (cells ram)(unat target_address :=
                        registers cpu3 (unat register_index))\<rparr>,
                     increase_pc cpu3 4))))"

text \<open>
  The second operand of the seven arithmetic and bitwise handlers; the source repeats this
  block in each of them. \<open>None\<close> is the early \<^verbatim>\<open>return false\<close>: after a failed register
  check (which has cleared \<^verbatim>\<open>running\<close>), or in the last branch, which only logs.
\<close>

definition resolve_src_value :: "u32 \<Rightarrow> u32 \<Rightarrow> CPU \<Rightarrow> u32 option \<times> CPU" where
  "resolve_src_value mode operand cpu =
     (if mode = OPERAND_REGISTER then
        (case is_reg_index_valid_runtime operand cpu of
           (False, cpu') \<Rightarrow> (None, cpu')
         | (True, cpu') \<Rightarrow> (Some (registers cpu' (unat operand)), cpu'))
      else if mode = OPERAND_NUMERIC then (Some operand, cpu)
      else (None, cpu))"

text \<open>
  \<^verbatim>\<open>handle_add_execution\<close>, \<^verbatim>\<open>handle_sub_execution\<close>, \<^verbatim>\<open>handle_mlp_execution\<close>,
  \<^verbatim>\<open>handle_and_execution\<close>, \<^verbatim>\<open>handle_or_execution\<close> and \<^verbatim>\<open>handle_xor_execution\<close> are
  the same text but for the operation \<open>f\<close> applied to the destination and the source value.
\<close>

definition handle_binop_execution ::
  "(u32 \<Rightarrow> u32 \<Rightarrow> u32) \<Rightarrow> RAM \<Rightarrow> CPU \<Rightarrow> bool \<times> RAM \<times> CPU" where
  "handle_binop_execution f ram cpu =
     (let dst_index = get_value_in_ram ram cpu 1;
          mode = get_value_in_ram ram cpu 2;
          operand = get_value_in_ram ram cpu 3 in
      case is_reg_index_valid_runtime dst_index cpu of
        (False, cpu') \<Rightarrow> (False, ram, cpu')
      | (True, cpu') \<Rightarrow>
          (case resolve_src_value mode operand cpu' of
             (None, cpu'') \<Rightarrow> (False, ram, cpu'')
           | (Some src_value, cpu'') \<Rightarrow>
               (let a = registers cpu'' (unat dst_index);
                    res = f a src_value in
                (True, ram,
                 increase_pc
                   (cpu''\<lparr>registers := (registers cpu'')(unat dst_index := res),
                          zero_flag := (res = 0)\<rparr>) 4))))"

definition handle_add_execution :: "RAM \<Rightarrow> CPU \<Rightarrow> bool \<times> RAM \<times> CPU" where
  "handle_add_execution = handle_binop_execution (\<lambda>a src_value. a + src_value)"

definition handle_sub_execution :: "RAM \<Rightarrow> CPU \<Rightarrow> bool \<times> RAM \<times> CPU" where
  "handle_sub_execution = handle_binop_execution (\<lambda>a src_value. a - src_value)"

text \<open>The product is taken in 64 bits and its low 32 bits are kept.\<close>

definition handle_mlp_execution :: "RAM \<Rightarrow> CPU \<Rightarrow> bool \<times> RAM \<times> CPU" where
  "handle_mlp_execution =
     handle_binop_execution
       (\<lambda>a src_value.
          (let wide = (ucast a :: 64 word) * (ucast src_value :: 64 word) in
           (ucast (wide AND 0xFFFFFFFF) :: u32)))"

definition handle_div_execution :: "RAM \<Rightarrow> CPU \<Rightarrow> bool \<times> RAM \<times> CPU" where
  "handle_div_execution ram cpu =
     (let dst_index = get_value_in_ram ram cpu 1;
          mode = get_value_in_ram ram cpu 2;
          operand = get_value_in_ram ram cpu 3 in
      case is_reg_index_valid_runtime dst_index cpu of
        (False, cpu') \<Rightarrow> (False, ram, cpu')
      | (True, cpu') \<Rightarrow>
          (case resolve_src_value mode operand cpu' of
             (None, cpu'') \<Rightarrow> (False, ram, cpu'')
           | (Some divisor, cpu'') \<Rightarrow>
               if divisor = 0 then (False, ram, cpu''\<lparr>running := False\<rparr>)
               else
                 (let dividend = registers cpu'' (unat dst_index);
                      quotient = dividend div divisor in
                  (True, ram,
                   increase_pc
                     (cpu''\<lparr>registers := (registers cpu'')(unat dst_index := quotient),
                            zero_flag := (quotient = 0)\<rparr>) 4))))"

definition handle_and_execution :: "RAM \<Rightarrow> CPU \<Rightarrow> bool \<times> RAM \<times> CPU" where
  "handle_and_execution = handle_binop_execution (\<lambda>a src_value. a AND src_value)"

definition handle_or_execution :: "RAM \<Rightarrow> CPU \<Rightarrow> bool \<times> RAM \<times> CPU" where
  "handle_or_execution = handle_binop_execution (\<lambda>a src_value. a OR src_value)"

definition handle_xor_execution :: "RAM \<Rightarrow> CPU \<Rightarrow> bool \<times> RAM \<times> CPU" where
  "handle_xor_execution = handle_binop_execution (\<lambda>a src_value. a XOR src_value)"

definition handle_jmp_execution :: "RAM \<Rightarrow> CPU \<Rightarrow> bool \<times> RAM \<times> CPU" where
  "handle_jmp_execution ram cpu =
     (let target = get_value_in_ram ram cpu 1 in
      case is_addr_literal_valid_runtime target cpu of
        (False, cpu') \<Rightarrow> (False, ram, cpu')
      | (True, cpu') \<Rightarrow> (True, ram, cpu'\<lparr>pc := target\<rparr>))"

definition handle_jz_execution :: "RAM \<Rightarrow> CPU \<Rightarrow> bool \<times> RAM \<times> CPU" where
  "handle_jz_execution ram cpu =
     (let target = get_value_in_ram ram cpu 1 in
      case is_addr_literal_valid_runtime target cpu of
        (False, cpu') \<Rightarrow> (False, ram, cpu')
      | (True, cpu') \<Rightarrow>
          if zero_flag cpu' then (True, ram, cpu'\<lparr>pc := target\<rparr>)
          else (True, ram, increase_pc cpu' 2))"

definition handle_jnz_execution :: "RAM \<Rightarrow> CPU \<Rightarrow> bool \<times> RAM \<times> CPU" where
  "handle_jnz_execution ram cpu =
     (let target = get_value_in_ram ram cpu 1 in
      case is_addr_literal_valid_runtime target cpu of
        (False, cpu') \<Rightarrow> (False, ram, cpu')
      | (True, cpu') \<Rightarrow>
          if \<not> zero_flag cpu' then (True, ram, cpu'\<lparr>pc := target\<rparr>)
          else (True, ram, increase_pc cpu' 2))"

text \<open>
  The two registers are read as \<^verbatim>\<open>int32_t\<close> and subtracted in 32 bits (two's complement,
  wrapping); \<open>sint\<close> reads the difference as signed.
\<close>

definition handle_cmp_execution :: "RAM \<Rightarrow> CPU \<Rightarrow> bool \<times> RAM \<times> CPU" where
  "handle_cmp_execution ram cpu =
     (let a_index = get_value_in_ram ram cpu 1;
          b_index = get_value_in_ram ram cpu 2 in
      case is_reg_index_valid_runtime a_index cpu of
        (False, cpu') \<Rightarrow> (False, ram, cpu')
      | (True, cpu') \<Rightarrow>
          (case is_reg_index_valid_runtime b_index cpu' of
             (False, cpu'') \<Rightarrow> (False, ram, cpu'')
           | (True, cpu'') \<Rightarrow>
               (let a = registers cpu'' (unat a_index);
                    b = registers cpu'' (unat b_index);
                    diff = a - b in
                (True, ram,
                 increase_pc
                   (cpu''\<lparr>zero_flag := (sint diff = 0),
                          negative_flag := (sint diff < 0)\<rparr>) 3))))"

text \<open>
  The body of the loop of \<^verbatim>\<open>cpu_run\<close>: the fetch and the \<^verbatim>\<open>switch\<close>. The result \<open>False\<close> is
  the \<^verbatim>\<open>return false\<close> out of \<^verbatim>\<open>cpu_run\<close>; \<open>True\<close> is the \<^verbatim>\<open>break\<close> back to the loop
  condition.
\<close>

definition cpu_run_step :: "RAM \<Rightarrow> CPU \<Rightarrow> bool \<times> RAM \<times> CPU" where
  "cpu_run_step ram cpu =
     (let instruction = get_value_in_ram ram cpu 0 in
      if instruction = ISA_LOADI then handle_loadi_execution ram cpu
      else if instruction = ISA_LOADA then handle_loada_execution ram cpu
      else if instruction = ISA_LOADM then handle_loadm_execution ram cpu
      else if instruction = ISA_STOREM then handle_storem_execution ram cpu
      else if instruction = ISA_ADD then handle_add_execution ram cpu
      else if instruction = ISA_SUB then handle_sub_execution ram cpu
      else if instruction = ISA_MLP then handle_mlp_execution ram cpu
      else if instruction = ISA_DIV then handle_div_execution ram cpu
      else if instruction = ISA_AND then handle_and_execution ram cpu
      else if instruction = ISA_OR then handle_or_execution ram cpu
      else if instruction = ISA_XOR then handle_xor_execution ram cpu
      else if instruction = ISA_JMP then handle_jmp_execution ram cpu
      else if instruction = ISA_JZ then handle_jz_execution ram cpu
      else if instruction = ISA_JNZ then handle_jnz_execution ram cpu
      else if instruction = ISA_CMP then handle_cmp_execution ram cpu
      else if instruction = ISA_HALT then (True, ram, cpu\<lparr>running := False\<rparr>)
      else (False, ram, cpu\<lparr>running := False\<rparr>))"

text \<open>
  The loop may run forever (a program that jumps to itself), so it is a partial function:
  \<open>None\<close> is a run that never returns, \<open>Some (ok, ram, cpu)\<close> is the value \<^verbatim>\<open>cpu_run\<close>
  returns with the memory and the processor state at that moment.
\<close>

partial_function (option) cpu_run_loop ::
  "RAM \<Rightarrow> CPU \<Rightarrow> u32 \<Rightarrow> (bool \<times> RAM \<times> CPU) option" where
  "cpu_run_loop ram cpu end_addr =
     (if running cpu \<and> pc cpu \<noteq> end_addr then
        (case cpu_run_step ram cpu of
           (ok, ram', cpu') \<Rightarrow>
             if ok then cpu_run_loop ram' cpu' end_addr
             else Some (False, ram', cpu'))
      else Some (True, ram, cpu))"

definition cpu_run :: "CPU \<Rightarrow> RAM \<Rightarrow> AssemblyRange \<Rightarrow> (bool \<times> RAM \<times> CPU) option" where
  "cpu_run cpu ram assembly_range =
     cpu_run_loop ram
       (cpu\<lparr>pc := start_address assembly_range, running := True\<rparr>)
       (end_address assembly_range)"

section \<open>The accessor as a call\<close>

text \<open>
  \<^verbatim>\<open>get_value_in_ram\<close> takes the memory and the processor state by pointer and writes
  through neither: it reads \<^verbatim>\<open>cpu->pc\<close> and one cell, logs, and returns. This is the call
  with all that it leaves behind: the value returned, the memory and the processor state
  after it.
\<close>

definition get_value_in_ram_call :: "RAM \<Rightarrow> CPU \<Rightarrow> u32 \<Rightarrow> u32 \<times> RAM \<times> CPU" where
  "get_value_in_ram_call ram cpu skip =
     (let idx = pc cpu + skip in
      if RAM_SIZE \<le> unat idx then (0, ram, cpu)
      else (cells ram (unat idx), ram, cpu))"

section \<open>The handlers on the words they have fetched\<close>

text \<open>
  Every handler begins by fetching its operand words with \<^verbatim>\<open>get_value_in_ram\<close> and
  works on the values fetched from then on. The definitions of this section are the
  handlers after their fetches, as functions of the fetched words: \<open>w k\<close> stands for the
  value that the call \<^verbatim>\<open>get_value_in_ram(ram, cpu, k)\<close> returned. They serve to state what a
  handler does with a fetched value, whatever the index it was fetched at.
\<close>

definition loadi_on_words :: "(u32 \<Rightarrow> u32) \<Rightarrow> RAM \<Rightarrow> CPU \<Rightarrow> bool \<times> RAM \<times> CPU" where
  "loadi_on_words w ram cpu =
     (let register_index = w 1;
          val = w 2 in
      case is_reg_index_valid_runtime register_index cpu of
        (False, cpu') \<Rightarrow> (False, ram, cpu')
      | (True, cpu') \<Rightarrow>
          (True, ram,
           increase_pc
             (cpu'\<lparr>registers := (registers cpu')(unat register_index := val),
                   zero_flag := (val = 0)\<rparr>) 3))"

definition loada_on_words :: "(u32 \<Rightarrow> u32) \<Rightarrow> RAM \<Rightarrow> CPU \<Rightarrow> bool \<times> RAM \<times> CPU" where
  "loada_on_words w ram cpu =
     (let address_index = w 1;
          address_literal = w 2 in
      case is_addr_index_valid_runtime address_index cpu of
        (False, cpu') \<Rightarrow> (False, ram, cpu')
      | (True, cpu') \<Rightarrow>
          (case is_addr_literal_valid_runtime address_literal cpu' of
             (False, cpu'') \<Rightarrow> (False, ram, cpu'')
           | (True, cpu'') \<Rightarrow>
               (True, ram,
                increase_pc
                  (cpu''\<lparr>address_registers :=
                     (address_registers cpu'')(unat address_index := address_literal)\<rparr>) 3)))"

definition loadm_on_words :: "(u32 \<Rightarrow> u32) \<Rightarrow> RAM \<Rightarrow> CPU \<Rightarrow> bool \<times> RAM \<times> CPU" where
  "loadm_on_words w ram cpu =
     (let register_index = w 1;
          mode = w 2;
          operand = w 3 in
      case is_reg_index_valid_runtime register_index cpu of
        (False, cpu') \<Rightarrow> (False, ram, cpu')
      | (True, cpu') \<Rightarrow>
          (case resolve_target_address mode operand cpu' of
             (None, cpu'') \<Rightarrow> (False, ram, cpu'')
           | (Some target_address, cpu'') \<Rightarrow>
               (case is_memory_access_valid_runtime target_address 1 cpu'' of
                  (False, cpu3) \<Rightarrow> (False, ram, cpu3)
                | (True, cpu3) \<Rightarrow>
                    (let val = cells ram (unat target_address) in
                     (True, ram,
                      increase_pc
                        (cpu3\<lparr>registers := (registers cpu3)(unat register_index := val),
                              zero_flag := (val = 0)\<rparr>) 4)))))"

definition storem_on_words :: "(u32 \<Rightarrow> u32) \<Rightarrow> RAM \<Rightarrow> CPU \<Rightarrow> bool \<times> RAM \<times> CPU" where
  "storem_on_words w ram cpu =
     (let address = w 1;
          mode = w 2;
          register_index = w 3 in
      case is_reg_index_valid_runtime register_index cpu of
        (False, cpu') \<Rightarrow> (False, ram, cpu')
      | (True, cpu') \<Rightarrow>
          (case resolve_target_address mode address cpu' of
             (None, cpu'') \<Rightarrow> (False, ram, cpu'')
           | (Some target_address, cpu'') \<Rightarrow>
               (case is_memory_access_valid_runtime target_address 1 cpu'' of
                  (False, cpu3) \<Rightarrow> (False, ram, cpu3)
                | (True, cpu3) \<Rightarrow>
                    (True,
                     ram\<lparr>cells := (cells ram)(unat target_address :=
                        registers cpu3 (unat register_index))\<rparr>,
                     increase_pc cpu3 4))))"

definition binop_on_words ::
  "(u32 \<Rightarrow> u32 \<Rightarrow> u32) \<Rightarrow> (u32 \<Rightarrow> u32) \<Rightarrow> RAM \<Rightarrow> CPU \<Rightarrow> bool \<times> RAM \<times> CPU" where
  "binop_on_words f w ram cpu =
     (let dst_index = w 1;
          mode = w 2;
          operand = w 3 in
      case is_reg_index_valid_runtime dst_index cpu of
        (False, cpu') \<Rightarrow> (False, ram, cpu')
      | (True, cpu') \<Rightarrow>
          (case resolve_src_value mode operand cpu' of
             (None, cpu'') \<Rightarrow> (False, ram, cpu'')
           | (Some src_value, cpu'') \<Rightarrow>
               (let a = registers cpu'' (unat dst_index);
                    res = f a src_value in
                (True, ram,
                 increase_pc
                   (cpu''\<lparr>registers := (registers cpu'')(unat dst_index := res),
                          zero_flag := (res = 0)\<rparr>) 4))))"

definition div_on_words :: "(u32 \<Rightarrow> u32) \<Rightarrow> RAM \<Rightarrow> CPU \<Rightarrow> bool \<times> RAM \<times> CPU" where
  "div_on_words w ram cpu =
     (let dst_index = w 1;
          mode = w 2;
          operand = w 3 in
      case is_reg_index_valid_runtime dst_index cpu of
        (False, cpu') \<Rightarrow> (False, ram, cpu')
      | (True, cpu') \<Rightarrow>
          (case resolve_src_value mode operand cpu' of
             (None, cpu'') \<Rightarrow> (False, ram, cpu'')
           | (Some divisor, cpu'') \<Rightarrow>
               if divisor = 0 then (False, ram, cpu''\<lparr>running := False\<rparr>)
               else
                 (let dividend = registers cpu'' (unat dst_index);
                      quotient = dividend div divisor in
                  (True, ram,
                   increase_pc
                     (cpu''\<lparr>registers := (registers cpu'')(unat dst_index := quotient),
                            zero_flag := (quotient = 0)\<rparr>) 4))))"

definition jmp_on_words :: "(u32 \<Rightarrow> u32) \<Rightarrow> RAM \<Rightarrow> CPU \<Rightarrow> bool \<times> RAM \<times> CPU" where
  "jmp_on_words w ram cpu =
     (let target = w 1 in
      case is_addr_literal_valid_runtime target cpu of
        (False, cpu') \<Rightarrow> (False, ram, cpu')
      | (True, cpu') \<Rightarrow> (True, ram, cpu'\<lparr>pc := target\<rparr>))"

definition jz_on_words :: "(u32 \<Rightarrow> u32) \<Rightarrow> RAM \<Rightarrow> CPU \<Rightarrow> bool \<times> RAM \<times> CPU" where
  "jz_on_words w ram cpu =
     (let target = w 1 in
      case is_addr_literal_valid_runtime target cpu of
        (False, cpu') \<Rightarrow> (False, ram, cpu')
      | (True, cpu') \<Rightarrow>
          if zero_flag cpu' then (True, ram, cpu'\<lparr>pc := target\<rparr>)
          else (True, ram, increase_pc cpu' 2))"

definition jnz_on_words :: "(u32 \<Rightarrow> u32) \<Rightarrow> RAM \<Rightarrow> CPU \<Rightarrow> bool \<times> RAM \<times> CPU" where
  "jnz_on_words w ram cpu =
     (let target = w 1 in
      case is_addr_literal_valid_runtime target cpu of
        (False, cpu') \<Rightarrow> (False, ram, cpu')
      | (True, cpu') \<Rightarrow>
          if \<not> zero_flag cpu' then (True, ram, cpu'\<lparr>pc := target\<rparr>)
          else (True, ram, increase_pc cpu' 2))"

definition cmp_on_words :: "(u32 \<Rightarrow> u32) \<Rightarrow> RAM \<Rightarrow> CPU \<Rightarrow> bool \<times> RAM \<times> CPU" where
  "cmp_on_words w ram cpu =
     (let a_index = w 1;
          b_index = w 2 in
      case is_reg_index_valid_runtime a_index cpu of
        (False, cpu') \<Rightarrow> (False, ram, cpu')
      | (True, cpu') \<Rightarrow>
          (case is_reg_index_valid_runtime b_index cpu' of
             (False, cpu'') \<Rightarrow> (False, ram, cpu'')
           | (True, cpu'') \<Rightarrow>
               (let a = registers cpu'' (unat a_index);
                    b = registers cpu'' (unat b_index);
                    diff = a - b in
                (True, ram,
                 increase_pc
                   (cpu''\<lparr>zero_flag := (sint diff = 0),
                          negative_flag := (sint diff < 0)\<rparr>) 3))))"

text \<open>
  The \<^verbatim>\<open>switch\<close> of \<^verbatim>\<open>cpu_run\<close> on the fetched instruction word \<open>w 0\<close>, each case with the
  operation of its handler.
\<close>

definition step_on_words :: "(u32 \<Rightarrow> u32) \<Rightarrow> RAM \<Rightarrow> CPU \<Rightarrow> bool \<times> RAM \<times> CPU" where
  "step_on_words w ram cpu =
     (let instruction = w 0 in
      if instruction = ISA_LOADI then loadi_on_words w ram cpu
      else if instruction = ISA_LOADA then loada_on_words w ram cpu
      else if instruction = ISA_LOADM then loadm_on_words w ram cpu
      else if instruction = ISA_STOREM then storem_on_words w ram cpu
      else if instruction = ISA_ADD then binop_on_words (\<lambda>a src_value. a + src_value) w ram cpu
      else if instruction = ISA_SUB then binop_on_words (\<lambda>a src_value. a - src_value) w ram cpu
      else if instruction = ISA_MLP then
        binop_on_words
          (\<lambda>a src_value.
             (let wide = (ucast a :: 64 word) * (ucast src_value :: 64 word) in
              (ucast (wide AND 0xFFFFFFFF) :: u32))) w ram cpu
      else if instruction = ISA_DIV then div_on_words w ram cpu
      else if instruction = ISA_AND then binop_on_words (\<lambda>a src_value. a AND src_value) w ram cpu
      else if instruction = ISA_OR then binop_on_words (\<lambda>a src_value. a OR src_value) w ram cpu
      else if instruction = ISA_XOR then binop_on_words (\<lambda>a src_value. a XOR src_value) w ram cpu
      else if instruction = ISA_JMP then jmp_on_words w ram cpu
      else if instruction = ISA_JZ then jz_on_words w ram cpu
      else if instruction = ISA_JNZ then jnz_on_words w ram cpu
      else if instruction = ISA_CMP then cmp_on_words w ram cpu
      else if instruction = ISA_HALT then (True, ram, cpu\<lparr>running := False\<rparr>)
      else (False, ram, cpu\<lparr>running := False\<rparr>))"

section \<open>Predicates used to state the properties\<close>

text \<open>
  The memory-range condition in the specification's words: \<open>start < 65536\<close>, and
  \<open>start + size - 1\<close>, taken as an exact integer, neither leaves the range of a word nor
  reaches 65536.
\<close>

definition spec_memory_range_valid :: "u32 \<Rightarrow> u32 \<Rightarrow> bool" where
  "spec_memory_range_valid start sz =
     (unat start < 65536 \<and>
      (let last = int (unat start) + int (unat sz) - 1 in
       0 \<le> last \<and> last < 2 ^ 32 \<and> last < 65536))"

text \<open>The seven opcodes of the binary arithmetic and bitwise instructions.\<close>

definition is_arith_opcode :: "u32 \<Rightarrow> bool" where
  "is_arith_opcode instruction =
     (instruction = ISA_ADD \<or> instruction = ISA_SUB \<or> instruction = ISA_MLP \<or>
      instruction = ISA_DIV \<or> instruction = ISA_AND \<or> instruction = ISA_OR \<or>
      instruction = ISA_XOR)"

text \<open>
  The instruction at the program counter has an operand word that the handler reads as a
  general-register index, and that word is 8 or more. The positions are those of the word
  layout: word 1 of load-immediate and load-from-memory, word 3 of store-to-memory, word 1
  of an arithmetic instruction and its word 3 when the operand-mode tag says register, words
  1 and 2 of compare.
\<close>

definition register_operand_out_of_range :: "RAM \<Rightarrow> CPU \<Rightarrow> bool" where
  "register_operand_out_of_range ram cpu =
     (let instruction = get_value_in_ram ram cpu 0;
          w1 = get_value_in_ram ram cpu 1;
          w2 = get_value_in_ram ram cpu 2;
          w3 = get_value_in_ram ram cpu 3 in
      (instruction = ISA_LOADI \<and> MAX_REGISTERS \<le> unat w1) \<or>
      (instruction = ISA_LOADM \<and> MAX_REGISTERS \<le> unat w1) \<or>
      (instruction = ISA_STOREM \<and> MAX_REGISTERS \<le> unat w3) \<or>
      (is_arith_opcode instruction \<and>
         (MAX_REGISTERS \<le> unat w1 \<or> (w2 = OPERAND_REGISTER \<and> MAX_REGISTERS \<le> unat w3))) \<or>
      (instruction = ISA_CMP \<and> (MAX_REGISTERS \<le> unat w1 \<or> MAX_REGISTERS \<le> unat w2)))"

text \<open>
  The instruction at the program counter is a divide with a valid destination whose second
  operand resolves to zero: a valid register holding 0, or the numeral 0.
\<close>

definition div_by_zero :: "RAM \<Rightarrow> CPU \<Rightarrow> bool" where
  "div_by_zero ram cpu =
     (let dst_index = get_value_in_ram ram cpu 1;
          mode = get_value_in_ram ram cpu 2;
          operand = get_value_in_ram ram cpu 3 in
      get_value_in_ram ram cpu 0 = ISA_DIV \<and> unat dst_index < MAX_REGISTERS \<and>
      ((mode = OPERAND_REGISTER \<and> unat operand < MAX_REGISTERS \<and>
          registers cpu (unat operand) = 0) \<or>
       (mode = OPERAND_NUMERIC \<and> operand = 0)))"

text \<open>
  The instruction at the program counter is an arithmetic or bitwise instruction with a
  valid destination register index whose operand-mode tag is neither register nor numeric:
  the state in which a handler reaches the last branch of its operand resolution.
\<close>

definition operand_mode_fault :: "RAM \<Rightarrow> CPU \<Rightarrow> bool" where
  "operand_mode_fault ram cpu =
     (is_arith_opcode (get_value_in_ram ram cpu 0) \<and>
      unat (get_value_in_ram ram cpu 1) < MAX_REGISTERS \<and>
      get_value_in_ram ram cpu 2 \<noteq> OPERAND_REGISTER \<and>
      get_value_in_ram ram cpu 2 \<noteq> OPERAND_NUMERIC)"

text \<open>
  What holds of the value \<^verbatim>\<open>cpu_run\<close> returns, for the end address \<open>e\<close>: after a successful
  return \<^verbatim>\<open>running\<close> is set exactly when the program counter is the end address, and when it
  is clear the program counter points at a halt instruction; after a failed return
  \<^verbatim>\<open>running\<close> is set only on an operand-mode fault.
\<close>

definition run_post :: "u32 \<Rightarrow> bool \<times> RAM \<times> CPU \<Rightarrow> bool" where
  "run_post e r =
     (case r of (ok, ram', cpu') \<Rightarrow>
        (ok \<longrightarrow> (running cpu' \<longleftrightarrow> pc cpu' = e)
              \<and> (\<not> running cpu' \<longrightarrow> get_value_in_ram ram' cpu' 0 = ISA_HALT))
      \<and> (\<not> ok \<longrightarrow> running cpu' \<longrightarrow> operand_mode_fault ram' cpu'))"

section \<open>Memory images of the scenarios\<close>

text \<open>
  Scenario A of the specification as pass 2 lays it out from address 0:
  \<^verbatim>\<open>LOADI R0,5\<close>, \<^verbatim>\<open>LOADI R1,3\<close>, \<^verbatim>\<open>ADD R0,R1\<close>, \<^verbatim>\<open>HALT\<close>.
\<close>

definition scenario_A :: RAM where
  "scenario_A = \<lparr>cells = (\<lambda>_. 0)(0 := 1, 1 := 0, 2 := 5, 3 := 1, 4 := 1, 5 := 3,
     6 := 5, 7 := 0, 8 := 0, 9 := 1, 10 := 0xFF)\<rparr>"

text \<open>Scenario B: \<^verbatim>\<open>LOADI R0,10\<close>, \<^verbatim>\<open>LOADI R1,0\<close>, \<^verbatim>\<open>DIV R0,R1\<close>, \<^verbatim>\<open>HALT\<close>.\<close>

definition scenario_B :: RAM where
  "scenario_B = \<lparr>cells = (\<lambda>_. 0)(0 := 1, 1 := 0, 2 := 10, 3 := 1, 4 := 1, 5 := 0,
     6 := 8, 7 := 0, 8 := 0, 9 := 1, 10 := 0xFF)\<rparr>"

text \<open>The range \<open>[0, n)\<close> of a successful assembly.\<close>

definition range_upto :: "u32 \<Rightarrow> AssemblyRange" where
  "range_upto n = \<lparr>start_address = 0, end_address = n, error = False\<rparr>"

section \<open>C strings and the library calls of the assembler\<close>

text \<open>
  A C string is the list of its characters before the terminating NUL. \<open>char_at s i\<close> is
  \<^verbatim>\<open>s[i]\<close>, the NUL included at \<open>i = length s\<close>; the source never reads beyond it. A \<^verbatim>\<open>char\<close>
  taken as a number is signed, as on the x86-64 Linux target of the repository.
\<close>

definition FAILURE :: int where
  "FAILURE = - 1"

definition char_at :: "string \<Rightarrow> nat \<Rightarrow> char" where
  "char_at s i = (if i < length s then s ! i else CHR 0x00)"

definition char_code :: "char \<Rightarrow> int" where
  "char_code c = (let n = (of_char c :: int) in if n < 128 then n else n - 256)"

text \<open>The conversion of a \<^verbatim>\<open>long\<close> or of a \<^verbatim>\<open>uint32_t\<close> to \<^verbatim>\<open>int\<close> keeps the low 32 bits.\<close>

definition long_to_int :: "int \<Rightarrow> int" where
  "long_to_int v = sint (word_of_int v :: u32)"

text \<open>
  \<^verbatim>\<open>strtol\<close> of the C library for a 64-bit \<^verbatim>\<open>long\<close>: leading white space, an optional sign,
  for base 0 or 16 an optional \<^verbatim>\<open>0x\<close> prefix (taken only before a hexadecimal digit), for
  base 0 a leading \<^verbatim>\<open>0\<close> meaning octal, then the longest run of digits of the base. The
  result is the value, the rest of the string (\<^verbatim>\<open>*endptr\<close>) and whether \<^verbatim>\<open>errno\<close> is
  \<^verbatim>\<open>ERANGE\<close>. Without any digit the value is 0 and the rest is the whole string.
\<close>

definition LONG_MAX :: int where
  "LONG_MAX = 2 ^ 63 - 1"

definition LONG_MIN :: int where
  "LONG_MIN = - (2 ^ 63)"

definition isspace :: "char \<Rightarrow> bool" where
  "isspace c = (c = CHR '' '' \<or> c = CHR 0x09 \<or> c = CHR 0x0A \<or> c = CHR 0x0B \<or>
     c = CHR 0x0C \<or> c = CHR 0x0D)"

definition digit_value :: "char \<Rightarrow> nat option" where
  "digit_value c =
     (let n = (of_char c :: nat) in
      if 48 \<le> n \<and> n \<le> 57 then Some (n - 48)
      else if 97 \<le> n \<and> n \<le> 122 then Some (n - 87)
      else if 65 \<le> n \<and> n \<le> 90 then Some (n - 55)
      else None)"

definition is_digit_of :: "nat \<Rightarrow> char \<Rightarrow> bool" where
  "is_digit_of base c = (case digit_value c of None \<Rightarrow> False | Some d \<Rightarrow> d < base)"

fun strtol_digits :: "nat \<Rightarrow> nat \<Rightarrow> string \<Rightarrow> nat \<times> string" where
  "strtol_digits base acc [] = (acc, [])"
| "strtol_digits base acc (c # cs) =
     (if is_digit_of base c
      then strtol_digits base (acc * base + the (digit_value c)) cs
      else (acc, c # cs))"

definition strtol :: "string \<Rightarrow> nat \<Rightarrow> int \<times> string \<times> bool" where
  "strtol nptr base =
     (let s1 = dropWhile isspace nptr;
          neg = (char_at s1 0 = CHR ''-'');
          s2 = (if char_at s1 0 = CHR ''-'' \<or> char_at s1 0 = CHR ''+'' then tl s1 else s1);
          hex = ((base = 0 \<or> base = 16) \<and> char_at s2 0 = CHR ''0'' \<and>
                 (char_at s2 1 = CHR ''x'' \<or> char_at s2 1 = CHR ''X'') \<and>
                 is_digit_of 16 (char_at s2 2));
          b = (if hex then 16
               else if base = 0 then (if char_at s2 0 = CHR ''0'' then 8 else 10)
               else base);
          s3 = (if hex then drop 2 s2 else s2)
      in if \<not> is_digit_of b (char_at s3 0) then (0, nptr, False)
         else
           (case strtol_digits b 0 s3 of
              (n, rest) \<Rightarrow>
                (let v = (if neg then - int n else int n) in
                 if LONG_MAX < v then (LONG_MAX, rest, True)
                 else if v < LONG_MIN then (LONG_MIN, rest, True)
                 else (v, rest, False))))"

text \<open>
  \<^verbatim>\<open>strtok\<close>: the successive calls on one buffer return its maximal runs of characters
  that are not delimiters, in order, then \<^verbatim>\<open>NULL\<close>. \<open>strtok_all\<close> is the list of these
  tokens (the second argument collects the current token, reversed) and \<open>token ts n\<close> is the
  result of call number \<open>n\<close>.
\<close>

fun strtok_all :: "(char \<Rightarrow> bool) \<Rightarrow> string \<Rightarrow> string \<Rightarrow> string list" where
  "strtok_all delim cur [] = (if cur = [] then [] else [rev cur])"
| "strtok_all delim cur (c # cs) =
     (if delim c
      then (if cur = [] then strtok_all delim [] cs else rev cur # strtok_all delim [] cs)
      else strtok_all delim (c # cur) cs)"

definition token :: "string list \<Rightarrow> nat \<Rightarrow> string option" where
  "token ts n = (if n < length ts then Some (ts ! n) else None)"

text \<open>The delimiters \<^verbatim>\<open>" ,\t"\<close> and \<^verbatim>\<open>" \t"\<close>.\<close>

definition operand_delim :: "char \<Rightarrow> bool" where
  "operand_delim c = (c = CHR '' '' \<or> c = CHR '','' \<or> c = CHR 0x09)"

definition blank_delim :: "char \<Rightarrow> bool" where
  "blank_delim c = (c = CHR '' '' \<or> c = CHR 0x09)"

text \<open>
  \<^verbatim>\<open>strncpy\<close> of a line into a buffer of 1024 characters followed by the NUL written into
  its last place.
\<close>

definition copy_line :: "string \<Rightarrow> string" where
  "copy_line line = take 1023 line"

section \<open>Parser (parser.c)\<close>

definition remove_leading_whitespaces :: "string \<Rightarrow> string" where
  "remove_leading_whitespaces line = dropWhile (\<lambda>c. c = CHR '' '' \<or> c = CHR 0x09) line"

definition remove_trailing_whitespaces :: "string \<Rightarrow> string" where
  "remove_trailing_whitespaces line =
     rev (dropWhile (\<lambda>c. c = CHR '' '' \<or> c = CHR 0x09 \<or> c = CHR 0x0A \<or> c = CHR 0x0D)
            (rev line))"

definition strip_comments :: "string \<Rightarrow> string" where
  "strip_comments line = takeWhile (\<lambda>c. c \<noteq> CHR '';'') line"

definition is_empty_line :: "string \<Rightarrow> bool" where
  "is_empty_line line =
     list_all (\<lambda>c. \<not> (c \<noteq> CHR '' '' \<and> c \<noteq> CHR 0x09 \<and> c \<noteq> CHR 0x0A \<and> c \<noteq> CHR 0x0D)) line"

text \<open>\<^verbatim>\<open>opcode_table\<close> (isa.h) and its lookup.\<close>

definition opcode_table :: "(string \<times> u32) list" where
  "opcode_table =
     [(''LOADI'', ISA_LOADI), (''LOADA'', ISA_LOADA), (''LOADM'', ISA_LOADM),
      (''STOREM'', ISA_STOREM), (''ADD'', ISA_ADD), (''SUB'', ISA_SUB), (''MLP'', ISA_MLP),
      (''DIV'', ISA_DIV), (''AND'', ISA_AND), (''OR'', ISA_OR), (''XOR'', ISA_XOR),
      (''JMP'', ISA_JMP), (''JZ'', ISA_JZ), (''JNZ'', ISA_JNZ), (''CMP'', ISA_CMP),
      (''HALT'', ISA_HALT)]"

fun get_opcode_from :: "(string \<times> u32) list \<Rightarrow> string \<Rightarrow> int" where
  "get_opcode_from [] mnemonic = FAILURE"
| "get_opcode_from ((m, opcode) # table) mnemonic =
     (if mnemonic = m then uint opcode else get_opcode_from table mnemonic)"

definition get_opcode :: "string \<Rightarrow> int" where
  "get_opcode mnemonic = get_opcode_from opcode_table mnemonic"

text \<open>An operand that may be \<^verbatim>\<open>NULL\<close> is a \<open>string option\<close>.\<close>

definition parse_register :: "string option \<Rightarrow> int" where
  "parse_register reg =
     (case reg of
        None \<Rightarrow> FAILURE
      | Some r \<Rightarrow>
          if char_at r 0 \<noteq> CHR ''R'' then FAILURE
          else
            (case strtol (tl r) 10 of
               (index, end, _) \<Rightarrow>
                 if char_at end 0 \<noteq> CHR 0x00 then FAILURE
                 else if index < 0 \<or> int MAX_REGISTERS \<le> index then FAILURE
                 else index))"

definition parse_directive :: "string \<Rightarrow> int" where
  "parse_directive line =
     (if take 4 line = ''.org''
      then long_to_int (fst (strtol (dropWhile blank_delim (drop 4 line)) 0))
      else FAILURE)"

text \<open>
  The second argument is the flag \<^verbatim>\<open>*literal_addr\<close> on entry; the result carries the flag
  on return.
\<close>

definition parse_address_parenthesis :: "string option \<Rightarrow> bool \<Rightarrow> int \<times> bool" where
  "parse_address_parenthesis addr literal_addr =
     (case addr of
        None \<Rightarrow> (FAILURE, literal_addr)
      | Some a \<Rightarrow>
          (let is_lit = (char_at a 0 = CHR ''('' \<and> char_at a 1 = CHR ''0'' \<and>
                         char_at a 2 = CHR ''x'');
               is_reg = (char_at a 0 = CHR ''('' \<and> char_at a 1 = CHR ''A'');
               literal_addr' = (if is_reg then False else if is_lit then True else literal_addr)
           in if \<not> (is_lit \<or> is_reg) then (FAILURE, literal_addr')
              else if literal_addr' then
                (case strtol (tl a) 0 of
                   (addr_val, end, _) \<Rightarrow>
                     if char_at end 0 \<noteq> CHR '')'' then (FAILURE, literal_addr')
                     else if addr_val < 0 \<or> 0xFFFF < addr_val then (FAILURE, literal_addr')
                     else (addr_val, literal_addr'))
              else
                (let index = char_code (char_at a 2) - char_code CHR ''0'' in
                 if int MAX_ADDRESS_REGISTERS \<le> index then (FAILURE, literal_addr')
                 else (index, literal_addr'))))"

definition parse_address :: "string option \<Rightarrow> bool \<Rightarrow> int" where
  "parse_address addr literal_addr =
     (case addr of
        None \<Rightarrow> FAILURE
      | Some a \<Rightarrow>
          if literal_addr then
            (if char_at a 0 \<noteq> CHR ''0'' \<or> char_at a 1 \<noteq> CHR ''x'' then FAILURE
             else
               (let addr_val = fst (strtol a 0) in
                if addr_val < 0 \<or> 0xFFFF < addr_val then FAILURE
                else addr_val))
          else
            (if char_at a 0 \<noteq> CHR ''A'' then FAILURE
             else
               (let index = char_code (char_at a 1) - char_code CHR ''0'' in
                if int MAX_ADDRESS_REGISTERS \<le> index then FAILURE
                else index)))"

definition is_label :: "string \<Rightarrow> bool" where
  "is_label line = (0 < length line \<and> line ! (length line - 1) = CHR '':'')"

text \<open>
  \<^verbatim>\<open>Label\<close> (isa.h). The table \<^verbatim>\<open>labels[MAX_LABELS]\<close> with its count \<^verbatim>\<open>label_count\<close> is the
  list of the entries written so far; \<^verbatim>\<open>find_label_addr\<close> reads no other entry.
\<close>

record Label =
  name :: string
  address :: u32

definition add_label :: "string \<Rightarrow> u32 \<Rightarrow> Label list \<Rightarrow> int \<times> Label list" where
  "add_label label_name addr labels =
     (if MAX_LABELS \<le> length labels then (FAILURE, labels)
      else (0, labels @ [\<lparr>name = take 63 label_name, address = addr\<rparr>]))"

fun find_label_addr :: "string \<Rightarrow> Label list \<Rightarrow> int" where
  "find_label_addr label_name [] = FAILURE"
| "find_label_addr label_name (l # labels) =
     (if name l = label_name then sint (address l) else find_label_addr label_name labels)"

section \<open>Assembler (assembler.c)\<close>

definition assemble_error :: AssemblyRange where
  "assemble_error = \<lparr>start_address = 0, end_address = 0, error = True\<rparr>"

text \<open>
  \<^verbatim>\<open>emit\<close> stores at \<^verbatim>\<open>ram->cells[cpu->pc]\<close> without a bounds check. With the program counter
  at 65536 or beyond, the store lands outside the array and the behaviour of the C program
  is undefined: that is the result \<open>None\<close>, here and in every function that emits.
\<close>

definition emit :: "RAM \<Rightarrow> CPU \<Rightarrow> u32 \<Rightarrow> (RAM \<times> CPU) option" where
  "emit ram cpu val =
     (if unat (pc cpu) < RAM_SIZE
      then Some (ram\<lparr>cells := (cells ram)(unat (pc cpu) := val)\<rparr>, cpu\<lparr>pc := pc cpu + 1\<rparr>)
      else None)"

definition require_two_operands :: "string option \<Rightarrow> string option \<Rightarrow> bool" where
  "require_two_operands op1 op2 = (if op1 = None \<or> op2 = None then False else True)"

definition require_one_operand :: "string option \<Rightarrow> bool" where
  "require_one_operand op1 = (if op1 = None then False else True)"

definition require_all_not_failure :: "int list \<Rightarrow> bool" where
  "require_all_not_failure vals = list_all (\<lambda>v. v \<noteq> FAILURE) vals"

text \<open>The optional \<^verbatim>\<open>#\<close> in front of a numeral.\<close>

definition skip_hash :: "string \<Rightarrow> string" where
  "skip_hash p = (if char_at p 0 = CHR ''#'' then tl p else p)"

text \<open>
  An assembler handler returns its boolean result with the memory and the processor state
  it leaves behind.
\<close>

definition handle_arithmetic_instruction ::
  "RAM \<Rightarrow> CPU \<Rightarrow> u32 \<Rightarrow> string option \<Rightarrow> string option \<Rightarrow> (bool \<times> RAM \<times> CPU) option" where
  "handle_arithmetic_instruction ram cpu opcode op1 op2 =
     (if \<not> require_two_operands op1 op2 then Some (False, ram, cpu)
      else
        (let dst = parse_register op1 in
         if \<not> require_all_not_failure [dst] then Some (False, ram, cpu)
         else if \<not> is_reg_index_valid_asm dst then Some (False, ram, cpu)
         else
           (let src_reg = parse_register op2 in
            if src_reg \<noteq> FAILURE then
              do {
                (ram, cpu) \<leftarrow> emit ram cpu opcode;
                (ram, cpu) \<leftarrow> emit ram cpu (word_of_int dst);
                (ram, cpu) \<leftarrow> emit ram cpu OPERAND_REGISTER;
                (ram, cpu) \<leftarrow> emit ram cpu (word_of_int src_reg);
                Some (True, ram, cpu)
              }
            else
              (let p = skip_hash (the op2) in
               case strtol p 0 of
                 (sval, endptr, erange) \<Rightarrow>
                   if length endptr = length p \<or> char_at endptr 0 \<noteq> CHR 0x00
                   then Some (False, ram, cpu)
                   else if erange then Some (False, ram, cpu)
                   else
                     do {
                       (ram, cpu) \<leftarrow> emit ram cpu opcode;
                       (ram, cpu) \<leftarrow> emit ram cpu (word_of_int dst);
                       (ram, cpu) \<leftarrow> emit ram cpu OPERAND_NUMERIC;
                       (ram, cpu) \<leftarrow> emit ram cpu (word_of_int sval);
                       Some (True, ram, cpu)
                     }))))"

definition handle_loadi_instruction ::
  "RAM \<Rightarrow> CPU \<Rightarrow> string option \<Rightarrow> string option \<Rightarrow> (bool \<times> RAM \<times> CPU) option" where
  "handle_loadi_instruction ram cpu op1 op2 =
     (if \<not> require_two_operands op1 op2 then Some (False, ram, cpu)
      else
        (let register_index = parse_register op1 in
         if \<not> require_all_not_failure [register_index] then Some (False, ram, cpu)
         else
           (let imm = (word_of_int (fst (strtol (skip_hash (the op2)) 0)) :: u32) in
            do {
              (ram, cpu) \<leftarrow> emit ram cpu ISA_LOADI;
              (ram, cpu) \<leftarrow> emit ram cpu (word_of_int register_index);
              (ram, cpu) \<leftarrow> emit ram cpu imm;
              Some (True, ram, cpu)
            })))"

definition handle_loada_instruction ::
  "RAM \<Rightarrow> CPU \<Rightarrow> string option \<Rightarrow> string option \<Rightarrow> (bool \<times> RAM \<times> CPU) option" where
  "handle_loada_instruction ram cpu op1 op2 =
     (if \<not> require_two_operands op1 op2 then Some (False, ram, cpu)
      else
        (let addr_reg = parse_address op1 False;
             addr_lit = parse_address op2 True in
         if \<not> require_all_not_failure [addr_reg, addr_lit] then Some (False, ram, cpu)
         else if \<not> is_addr_index_valid_asm addr_reg then Some (False, ram, cpu)
         else if \<not> is_addr_literal_valid (word_of_int addr_lit) then Some (False, ram, cpu)
         else
           do {
             (ram, cpu) \<leftarrow> emit ram cpu ISA_LOADA;
             (ram, cpu) \<leftarrow> emit ram cpu (word_of_int addr_reg);
             (ram, cpu) \<leftarrow> emit ram cpu (word_of_int addr_lit);
             Some (True, ram, cpu)
           }))"

definition handle_loadm_instruction ::
  "RAM \<Rightarrow> CPU \<Rightarrow> string option \<Rightarrow> string option \<Rightarrow> (bool \<times> RAM \<times> CPU) option" where
  "handle_loadm_instruction ram cpu op1 op2 =
     (if \<not> require_two_operands op1 op2 then Some (False, ram, cpu)
      else
        (let register_index = parse_register op1 in
         case parse_address_parenthesis op2 False of
           (addr, is_literal) \<Rightarrow>
             if \<not> require_all_not_failure [register_index, addr] then Some (False, ram, cpu)
             else if \<not> is_reg_index_valid_asm register_index then Some (False, ram, cpu)
             else if is_literal \<and> \<not> is_addr_literal_valid (word_of_int addr)
               then Some (False, ram, cpu)
             else if \<not> is_literal \<and> \<not> is_addr_index_valid_asm addr
               then Some (False, ram, cpu)
             else
               do {
                 (ram, cpu) \<leftarrow> emit ram cpu ISA_LOADM;
                 (ram, cpu) \<leftarrow> emit ram cpu (word_of_int register_index);
                 (ram, cpu) \<leftarrow> emit ram cpu (if is_literal then ADDR_LITERAL else ADDR_REGISTER);
                 (ram, cpu) \<leftarrow> emit ram cpu (word_of_int addr);
                 Some (True, ram, cpu)
               }))"

definition handle_storem_instruction ::
  "RAM \<Rightarrow> CPU \<Rightarrow> string option \<Rightarrow> string option \<Rightarrow> (bool \<times> RAM \<times> CPU) option" where
  "handle_storem_instruction ram cpu op1 op2 =
     (if \<not> require_two_operands op1 op2 then Some (False, ram, cpu)
      else
        (let register_index = parse_register op2 in
         case parse_address_parenthesis op1 False of
           (addr, is_literal) \<Rightarrow>
             if \<not> require_all_not_failure [register_index, addr] then Some (False, ram, cpu)
             else if \<not> is_reg_index_valid_asm register_index then Some (False, ram, cpu)
             else if is_literal \<and> \<not> is_addr_literal_valid (word_of_int addr)
               then Some (False, ram, cpu)
             else if \<not> is_literal \<and> \<not> is_addr_index_valid_asm addr
               then Some (False, ram, cpu)
             else
               do {
                 (ram, cpu) \<leftarrow> emit ram cpu ISA_STOREM;
                 (ram, cpu) \<leftarrow> emit ram cpu (word_of_int addr);
                 (ram, cpu) \<leftarrow> emit ram cpu (if is_literal then ADDR_LITERAL else ADDR_REGISTER);
                 (ram, cpu) \<leftarrow> emit ram cpu (word_of_int register_index);
                 Some (True, ram, cpu)
               }))"

definition handle_cmp_instruction ::
  "RAM \<Rightarrow> CPU \<Rightarrow> string option \<Rightarrow> string option \<Rightarrow> (bool \<times> RAM \<times> CPU) option" where
  "handle_cmp_instruction ram cpu op1 op2 =
     (if \<not> require_two_operands op1 op2 then Some (False, ram, cpu)
      else
        (let dst_index = parse_register op1;
             src_index = parse_register op2 in
         if \<not> require_all_not_failure [dst_index, src_index] then Some (False, ram, cpu)
         else if \<not> is_reg_index_valid_asm dst_index then Some (False, ram, cpu)
         else if \<not> is_reg_index_valid_asm src_index then Some (False, ram, cpu)
         else
           do {
             (ram, cpu) \<leftarrow> emit ram cpu ISA_CMP;
             (ram, cpu) \<leftarrow> emit ram cpu (word_of_int dst_index);
             (ram, cpu) \<leftarrow> emit ram cpu (word_of_int src_index);
             Some (True, ram, cpu)
           }))"

definition handle_jmp_instructions ::
  "RAM \<Rightarrow> CPU \<Rightarrow> int \<Rightarrow> string option \<Rightarrow> Label list \<Rightarrow> (bool \<times> RAM \<times> CPU) option" where
  "handle_jmp_instructions ram cpu opcode op1 labels =
     (if \<not> require_one_operand op1 then Some (False, ram, cpu)
      else
        (let addr =
           (if char_at (the op1) 0 = CHR ''0'' \<and>
               (char_at (the op1) 1 = CHR ''x'' \<or> char_at (the op1) 1 = CHR ''X'')
            then parse_address op1 True
            else find_label_addr (the op1) labels) in
         if addr = FAILURE then Some (False, ram, cpu)
         else
           do {
             (ram, cpu) \<leftarrow> emit ram cpu (word_of_int opcode);
             (ram, cpu) \<leftarrow> emit ram cpu (word_of_int addr);
             Some (True, ram, cpu)
           }))"

text \<open>
  The sizing \<^verbatim>\<open>switch\<close> of the first pass: the number of words by which \<^verbatim>\<open>pc_cursor\<close> advances
  for an opcode. The \<^verbatim>\<open>switch\<close> has no case for \<^verbatim>\<open>ISA_CMP\<close>, which takes the default.
\<close>

definition first_pass_size :: "int \<Rightarrow> u32" where
  "first_pass_size opcode =
     (if opcode = uint ISA_LOADI then 3
      else if opcode = uint ISA_LOADA then 3
      else if opcode = uint ISA_LOADM then 4
      else if opcode = uint ISA_STOREM then 4
      else if opcode = uint ISA_ADD \<or> opcode = uint ISA_SUB \<or> opcode = uint ISA_MLP \<or>
              opcode = uint ISA_DIV \<or> opcode = uint ISA_AND \<or> opcode = uint ISA_OR \<or>
              opcode = uint ISA_XOR then 4
      else if opcode = uint ISA_JMP \<or> opcode = uint ISA_JZ \<or> opcode = uint ISA_JNZ then 2
      else if opcode = uint ISA_HALT then 1
      else 1)"

text \<open>
  The emitting \<^verbatim>\<open>switch\<close> of the second pass, for an opcode that \<^verbatim>\<open>get_opcode\<close> returned and
  the two operand tokens.
\<close>

definition second_pass_emit ::
  "RAM \<Rightarrow> CPU \<Rightarrow> int \<Rightarrow> string option \<Rightarrow> string option \<Rightarrow> Label list \<Rightarrow>
   (bool \<times> RAM \<times> CPU) option" where
  "second_pass_emit ram cpu opcode op1 op2 labels =
     (if opcode = uint ISA_LOADI then handle_loadi_instruction ram cpu op1 op2
      else if opcode = uint ISA_LOADA then handle_loada_instruction ram cpu op1 op2
      else if opcode = uint ISA_LOADM then handle_loadm_instruction ram cpu op1 op2
      else if opcode = uint ISA_STOREM then handle_storem_instruction ram cpu op1 op2
      else if opcode = uint ISA_ADD \<or> opcode = uint ISA_SUB \<or> opcode = uint ISA_MLP \<or>
              opcode = uint ISA_DIV \<or> opcode = uint ISA_AND \<or> opcode = uint ISA_OR \<or>
              opcode = uint ISA_XOR
        then handle_arithmetic_instruction ram cpu (word_of_int opcode) op1 op2
      else if opcode = uint ISA_CMP then handle_cmp_instruction ram cpu op1 op2
      else if opcode = uint ISA_JMP \<or> opcode = uint ISA_JZ \<or> opcode = uint ISA_JNZ
        then handle_jmp_instructions ram cpu opcode op1 labels
      else if opcode = uint ISA_HALT then
        do {
          (ram, cpu) \<leftarrow> emit ram cpu ISA_HALT;
          Some (True, ram, cpu)
        }
      else Some (False, ram, cpu))"

text \<open>
  The three clean-up calls at the head of each iteration of both passes. They change the
  line in place, so the second pass starts from the lines as the first pass left them.
\<close>

definition clean_line :: "string \<Rightarrow> string" where
  "clean_line line =
     strip_comments (remove_trailing_whitespaces (remove_leading_whitespaces line))"

text \<open>
  The directive block of both passes: \<^verbatim>\<open>parse_directive\<close>, then, when that failed on a line
  starting with a dot, the manual parse of \<^verbatim>\<open>.org\<close> and its argument.
\<close>

definition directive_value :: "string \<Rightarrow> int" where
  "directive_value line =
     (let directive_val = parse_directive line in
      if directive_val = FAILURE \<and> char_at line 0 = CHR ''.'' then
        (let toks = strtok_all blank_delim [] (copy_line line) in
         case token toks 0 of
           None \<Rightarrow> directive_val
         | Some tok \<Rightarrow>
             if tok = ''.org'' then
               (case token toks 1 of
                  None \<Rightarrow> directive_val
                | Some arg \<Rightarrow> long_to_int (fst (strtol arg 0)))
             else directive_val)
      else directive_val)"

text \<open>The variables of the first pass.\<close>

record first_pass_state =
  pc_cursor :: u32
  start_set :: bool
  range_start :: u32
  label_table :: "Label list"

text \<open>
  The end of a first-pass iteration, from the mnemonic on: \<open>None\<close> is the return of the
  error sentinel.
\<close>

definition first_pass_mnemonic :: "string \<Rightarrow> first_pass_state \<Rightarrow> first_pass_state option" where
  "first_pass_mnemonic mn st =
     (let opcode = get_opcode mn in
      if opcode = FAILURE then None
      else Some (st\<lparr>pc_cursor := pc_cursor st + first_pass_size opcode\<rparr>))"

text \<open>One iteration of the first pass on a cleaned line that is not empty.\<close>

definition first_pass_line :: "string \<Rightarrow> first_pass_state \<Rightarrow> first_pass_state option" where
  "first_pass_line line st =
     (let directive_val = directive_value line in
      if directive_val \<noteq> FAILURE then
        Some (st\<lparr>pc_cursor := word_of_int directive_val,
                 range_start := (if start_set st then range_start st
                                 else word_of_int directive_val),
                 start_set := True\<rparr>)
      else
        (let toks = strtok_all operand_delim [] (copy_line line) in
         case token toks 0 of
           None \<Rightarrow> Some st
         | Some first_tok \<Rightarrow>
             if 0 < length first_tok \<and> char_at first_tok (length first_tok - 1) = CHR '':''
             then
               (let label_name = take (min (length first_tok - 1) 255) first_tok in
                case add_label label_name (pc_cursor st) (label_table st) of
                  (res, labels) \<Rightarrow>
                    if res = FAILURE then None
                    else
                      (case token toks 1 of
                         None \<Rightarrow> Some (st\<lparr>label_table := labels\<rparr>)
                       | Some rest \<Rightarrow> first_pass_mnemonic rest (st\<lparr>label_table := labels\<rparr>)))
             else first_pass_mnemonic first_tok st))"

fun first_pass :: "string list \<Rightarrow> first_pass_state \<Rightarrow> first_pass_state option" where
  "first_pass [] st = Some st"
| "first_pass (l # ls) st =
     (let line = clean_line l in
      if is_empty_line line then first_pass ls st
      else
        (case first_pass_line line st of
           None \<Rightarrow> None
         | Some st' \<Rightarrow> first_pass ls st'))"

text \<open>
  One iteration of the second pass on a cleaned line that is not empty. The boolean \<open>False\<close>
  is the return of the error sentinel.
\<close>

definition second_pass_line ::
  "string \<Rightarrow> Label list \<Rightarrow> RAM \<Rightarrow> CPU \<Rightarrow> (bool \<times> RAM \<times> CPU) option" where
  "second_pass_line line labels ram cpu =
     (let colon = (CHR '':'' \<in> set line);
          text = (if colon
                  then remove_leading_whitespaces (tl (dropWhile (\<lambda>c. c \<noteq> CHR '':'') line))
                  else line) in
      if colon \<and> is_empty_line text then Some (True, ram, cpu)
      else
        (let directive_val = directive_value text in
         if directive_val \<noteq> FAILURE then Some (True, ram, cpu\<lparr>pc := word_of_int directive_val\<rparr>)
         else
           (let toks = strtok_all operand_delim [] (copy_line text) in
            case token toks 0 of
              None \<Rightarrow> Some (True, ram, cpu)
            | Some mnemonic \<Rightarrow>
                (let opcode = get_opcode mnemonic in
                 if opcode = FAILURE then Some (False, ram, cpu)
                 else second_pass_emit ram cpu opcode (token toks 1) (token toks 2) labels))))"

fun second_pass ::
  "string list \<Rightarrow> Label list \<Rightarrow> RAM \<Rightarrow> CPU \<Rightarrow> (bool \<times> RAM \<times> CPU) option" where
  "second_pass [] labels ram cpu = Some (True, ram, cpu)"
| "second_pass (l # ls) labels ram cpu =
     (let line = clean_line l in
      if is_empty_line line then second_pass ls labels ram cpu
      else
        (case second_pass_line line labels ram cpu of
           None \<Rightarrow> None
         | Some (ok, ram', cpu') \<Rightarrow>
             if ok then second_pass ls labels ram' cpu'
             else Some (False, ram', cpu')))"

text \<open>
  \<^verbatim>\<open>assemble\<close>. The file is the list of the lines \<^verbatim>\<open>fgets\<close> reads from it, \<open>None\<close> when a
  pointer argument is \<^verbatim>\<open>NULL\<close> or the file cannot be opened. The result is the range with the
  memory and the processor state after the call.
\<close>

definition assemble ::
  "RAM \<Rightarrow> CPU \<Rightarrow> string list option \<Rightarrow> (AssemblyRange \<times> RAM \<times> CPU) option" where
  "assemble ram cpu file =
     (case file of
        None \<Rightarrow> Some (assemble_error, ram, cpu)
      | Some lines \<Rightarrow>
          if lines = [] then Some (assemble_error, ram, cpu)
          else
            (case first_pass lines
                    \<lparr>pc_cursor = 0, start_set = False, range_start = 0, label_table = []\<rparr> of
               None \<Rightarrow> Some (assemble_error, ram, cpu)
             | Some st \<Rightarrow>
                 (let start = (if \<not> start_set st then 0 else range_start st) in
                  case second_pass (map clean_line lines) (label_table st) ram
                         (cpu\<lparr>pc := start\<rparr>) of
                    None \<Rightarrow> None
                  | Some (ok, ram', cpu') \<Rightarrow>
                      if ok
                      then Some (\<lparr>start_address = start, end_address = pc cpu',
                                   error = False\<rparr>, ram', cpu')
                      else Some (assemble_error, ram', cpu'))))"

section \<open>The word counts\<close>

text \<open>
  The fixed word count of each opcode in the specification's words: load-immediate 3,
  load-address 3, load-from-memory 4, store-to-memory 4, each binary arithmetic or bitwise
  operation 4, each jump 2, compare 3, halt 1.
\<close>

definition spec_word_count :: "u32 \<Rightarrow> u32" where
  "spec_word_count opcode =
     (if opcode = ISA_LOADI then 3
      else if opcode = ISA_LOADA then 3
      else if opcode = ISA_LOADM then 4
      else if opcode = ISA_STOREM then 4
      else if is_arith_opcode opcode then 4
      else if opcode = ISA_JMP \<or> opcode = ISA_JZ \<or> opcode = ISA_JNZ then 2
      else if opcode = ISA_CMP then 3
      else if opcode = ISA_HALT then 1
      else 0)"

text \<open>
  The control transfers that are taken in a processor state: the unconditional jump, the
  jump-if-zero with the zero flag set, the jump-if-not-zero with the zero flag clear.
\<close>

definition taken_transfer :: "u32 \<Rightarrow> CPU \<Rightarrow> bool" where
  "taken_transfer opcode cpu =
     (opcode = ISA_JMP \<or> (opcode = ISA_JZ \<and> zero_flag cpu) \<or>
      (opcode = ISA_JNZ \<and> \<not> zero_flag cpu))"

text \<open>A sequence of calls of \<^verbatim>\<open>emit\<close>, one for each word of the list.\<close>

fun emit_all :: "RAM \<Rightarrow> CPU \<Rightarrow> u32 list \<Rightarrow> (RAM \<times> CPU) option" where
  "emit_all ram cpu [] = Some (ram, cpu)"
| "emit_all ram cpu (w # ws) =
     (case emit ram cpu w of None \<Rightarrow> None | Some (ram', cpu') \<Rightarrow> emit_all ram' cpu' ws)"

text \<open>
  What a handler of the second pass does for an instruction of \<open>n\<close> words: when it returns
  success it has made \<open>n\<close> calls of \<^verbatim>\<open>emit\<close>, the first with the opcode; when it returns
  failure it has changed nothing.
\<close>

definition emitted :: "nat \<Rightarrow> u32 \<Rightarrow> RAM \<Rightarrow> CPU \<Rightarrow> (bool \<times> RAM \<times> CPU) option \<Rightarrow> bool" where
  "emitted n opcode ram cpu res =
     (case res of
        None \<Rightarrow> True
      | Some (ok, ram', cpu') \<Rightarrow>
          if ok then (\<exists>ws. length ws = n \<and> hd ws = opcode \<and>
                           emit_all ram cpu ws = Some (ram', cpu'))
          else ram' = ram \<and> cpu' = cpu)"

section \<open>Basic facts\<close>

lemmas ISA_defs =
  ISA_LOADI_def ISA_LOADA_def ISA_LOADM_def ISA_STOREM_def ISA_ADD_def ISA_SUB_def
  ISA_MLP_def ISA_DIV_def ISA_AND_def ISA_OR_def ISA_XOR_def ISA_JMP_def ISA_JZ_def
  ISA_JNZ_def ISA_CMP_def ISA_HALT_def

lemmas validator_defs =
  is_reg_index_valid_runtime_def is_addr_index_valid_runtime_def
  is_addr_literal_valid_runtime_def is_memory_access_valid_runtime_def
  MAX_REGISTERS_def MAX_ADDRESS_REGISTERS_def RAM_SIZE_def

lemmas mode_defs =
  ADDR_REGISTER_def ADDR_LITERAL_def OPERAND_REGISTER_def OPERAND_NUMERIC_def

lemmas handler_defs =
  handle_loadi_execution_def handle_loada_execution_def handle_loadm_execution_def
  handle_storem_execution_def handle_binop_execution_def handle_add_execution_def
  handle_sub_execution_def handle_mlp_execution_def handle_div_execution_def
  handle_and_execution_def handle_or_execution_def handle_xor_execution_def
  handle_jmp_execution_def handle_jz_execution_def handle_jnz_execution_def
  handle_cmp_execution_def resolve_src_value_def resolve_target_address_def

subsection \<open>Unfolding the loop\<close>

lemma cpu_run_loop_stop:
  "\<not> (running cpu \<and> pc cpu \<noteq> e) \<Longrightarrow> cpu_run_loop ram cpu e = Some (True, ram, cpu)"
  by (subst cpu_run_loop.simps) auto

lemma cpu_run_loop_fail:
  "running cpu \<Longrightarrow> pc cpu \<noteq> e \<Longrightarrow> cpu_run_step ram cpu = (False, ram', cpu') \<Longrightarrow>
   cpu_run_loop ram cpu e = Some (False, ram', cpu')"
  by (subst cpu_run_loop.simps) simp

lemma cpu_run_loop_continue:
  "running cpu \<Longrightarrow> pc cpu \<noteq> e \<Longrightarrow> cpu_run_step ram cpu = (True, ram', cpu') \<Longrightarrow>
   cpu_run_loop ram cpu e = cpu_run_loop ram' cpu' e"
  by (subst cpu_run_loop.simps) simp

lemma cpu_run_loop_unfold:
  "running cpu \<and> pc cpu \<noteq> e \<Longrightarrow>
   cpu_run_loop ram cpu e =
     (case cpu_run_step ram cpu of
        (ok, ram', cpu') \<Rightarrow>
          if ok then cpu_run_loop ram' cpu' e else Some (False, ram', cpu'))"
  by (subst cpu_run_loop.simps) simp

text \<open>The facts that evaluate a run on a concrete memory image.\<close>

lemmas run_eval =
  cpu_run_def cpu_run_loop_unfold cpu_run_loop_stop cpu_run_step_def handler_defs
  validator_defs mode_defs ISA_defs get_value_in_ram_def increase_pc_def cpu_init_def
  is_memory_access_valid_def Let_def

subsection \<open>What each handler leaves behind\<close>

lemma binop_result:
  assumes "handle_binop_execution f ram cpu = (ok, ram', cpu')"
  shows "ram' = ram"
    and "ok \<Longrightarrow> running cpu' = running cpu"
    and "\<not> ok \<Longrightarrow> running cpu' \<Longrightarrow>
           cpu' = cpu \<and> unat (get_value_in_ram ram cpu 1) < MAX_REGISTERS \<and>
           get_value_in_ram ram cpu 2 \<noteq> OPERAND_REGISTER \<and>
           get_value_in_ram ram cpu 2 \<noteq> OPERAND_NUMERIC"
  using assms
  by (auto simp: handle_binop_execution_def resolve_src_value_def validator_defs
      increase_pc_def Let_def split: if_splits)

lemma div_result:
  assumes "handle_div_execution ram cpu = (ok, ram', cpu')"
  shows "ram' = ram"
    and "ok \<Longrightarrow> running cpu' = running cpu"
    and "\<not> ok \<Longrightarrow> running cpu' \<Longrightarrow>
           cpu' = cpu \<and> unat (get_value_in_ram ram cpu 1) < MAX_REGISTERS \<and>
           get_value_in_ram ram cpu 2 \<noteq> OPERAND_REGISTER \<and>
           get_value_in_ram ram cpu 2 \<noteq> OPERAND_NUMERIC"
  using assms
  by (auto simp: handle_div_execution_def resolve_src_value_def validator_defs
      increase_pc_def Let_def split: if_splits)

lemma other_result:
  assumes "h = handle_loadi_execution \<or> h = handle_loada_execution \<or> h = handle_loadm_execution
         \<or> h = handle_storem_execution \<or> h = handle_jmp_execution \<or> h = handle_jz_execution
         \<or> h = handle_jnz_execution \<or> h = handle_cmp_execution"
    and "h ram cpu = (ok, ram', cpu')"
  shows "ok \<Longrightarrow> running cpu' = running cpu"
    and "\<not> ok \<Longrightarrow> \<not> running cpu' \<and> ram' = ram"
  using assms
  by (auto simp: handle_loadi_execution_def handle_loada_execution_def
      handle_loadm_execution_def handle_storem_execution_def handle_jmp_execution_def
      handle_jz_execution_def handle_jnz_execution_def handle_cmp_execution_def
      resolve_target_address_def validator_defs increase_pc_def Let_def split: if_splits)

lemma cpu_run_step_cases:
  obtains (arith) f where "is_arith_opcode (get_value_in_ram ram cpu 0)"
      "get_value_in_ram ram cpu 0 \<noteq> ISA_DIV"
      "cpu_run_step ram cpu = handle_binop_execution f ram cpu"
  | (div) "is_arith_opcode (get_value_in_ram ram cpu 0)"
      "cpu_run_step ram cpu = handle_div_execution ram cpu"
  | (other) h where "h = handle_loadi_execution \<or> h = handle_loada_execution
         \<or> h = handle_loadm_execution
         \<or> h = handle_storem_execution \<or> h = handle_jmp_execution \<or> h = handle_jz_execution
         \<or> h = handle_jnz_execution \<or> h = handle_cmp_execution"
      "cpu_run_step ram cpu = h ram cpu"
  | (halt) "get_value_in_ram ram cpu 0 = ISA_HALT"
      "cpu_run_step ram cpu = (True, ram, cpu\<lparr>running := False\<rparr>)"
  | (invalid) "cpu_run_step ram cpu = (False, ram, cpu\<lparr>running := False\<rparr>)"
proof -
  let ?i = "get_value_in_ram ram cpu 0"
  consider "?i = ISA_LOADI" | "?i = ISA_LOADA" | "?i = ISA_LOADM" | "?i = ISA_STOREM"
    | "?i = ISA_ADD" | "?i = ISA_SUB" | "?i = ISA_MLP" | "?i = ISA_DIV" | "?i = ISA_AND"
    | "?i = ISA_OR" | "?i = ISA_XOR" | "?i = ISA_JMP" | "?i = ISA_JZ" | "?i = ISA_JNZ"
    | "?i = ISA_CMP" | "?i = ISA_HALT"
    | "?i \<noteq> ISA_LOADI" "?i \<noteq> ISA_LOADA" "?i \<noteq> ISA_LOADM" "?i \<noteq> ISA_STOREM"
      "?i \<noteq> ISA_ADD" "?i \<noteq> ISA_SUB" "?i \<noteq> ISA_MLP" "?i \<noteq> ISA_DIV" "?i \<noteq> ISA_AND"
      "?i \<noteq> ISA_OR" "?i \<noteq> ISA_XOR" "?i \<noteq> ISA_JMP" "?i \<noteq> ISA_JZ" "?i \<noteq> ISA_JNZ"
      "?i \<noteq> ISA_CMP" "?i \<noteq> ISA_HALT"
    by blast
  then show thesis
  proof cases
    case 1 then show ?thesis by (intro other [of handle_loadi_execution]) (simp_all add: cpu_run_step_def)
  next
    case 2 then show ?thesis by (intro other [of handle_loada_execution]) (simp_all add: cpu_run_step_def ISA_defs)
  next
    case 3 then show ?thesis by (intro other [of handle_loadm_execution]) (simp_all add: cpu_run_step_def ISA_defs)
  next
    case 4 then show ?thesis by (intro other [of handle_storem_execution]) (simp_all add: cpu_run_step_def ISA_defs)
  next
    case 5 then show ?thesis
      by (intro arith [of "\<lambda>a src_value. a + src_value"])
        (simp_all add: cpu_run_step_def ISA_defs is_arith_opcode_def handle_add_execution_def)
  next
    case 6 then show ?thesis
      by (intro arith [of "\<lambda>a src_value. a - src_value"])
        (simp_all add: cpu_run_step_def ISA_defs is_arith_opcode_def handle_sub_execution_def)
  next
    case 7 then show ?thesis
      by (intro arith [of "\<lambda>a src_value.
          (let wide = (ucast a :: 64 word) * (ucast src_value :: 64 word) in
           (ucast (wide AND 0xFFFFFFFF) :: u32))"])
        (simp_all add: cpu_run_step_def ISA_defs is_arith_opcode_def handle_mlp_execution_def)
  next
    case 8 then show ?thesis
      by (intro div) (simp_all add: cpu_run_step_def ISA_defs is_arith_opcode_def)
  next
    case 9 then show ?thesis
      by (intro arith [of "\<lambda>a src_value. a AND src_value"])
        (simp_all add: cpu_run_step_def ISA_defs is_arith_opcode_def handle_and_execution_def)
  next
    case 10 then show ?thesis
      by (intro arith [of "\<lambda>a src_value. a OR src_value"])
        (simp_all add: cpu_run_step_def ISA_defs is_arith_opcode_def handle_or_execution_def)
  next
    case 11 then show ?thesis
      by (intro arith [of "\<lambda>a src_value. a XOR src_value"])
        (simp_all add: cpu_run_step_def ISA_defs is_arith_opcode_def handle_xor_execution_def)
  next
    case 12 then show ?thesis by (intro other [of handle_jmp_execution]) (simp_all add: cpu_run_step_def ISA_defs)
  next
    case 13 then show ?thesis by (intro other [of handle_jz_execution]) (simp_all add: cpu_run_step_def ISA_defs)
  next
    case 14 then show ?thesis by (intro other [of handle_jnz_execution]) (simp_all add: cpu_run_step_def ISA_defs)
  next
    case 15 then show ?thesis by (intro other [of handle_cmp_execution]) (simp_all add: cpu_run_step_def ISA_defs)
  next
    case 16 then show ?thesis by (intro halt) (simp_all add: cpu_run_step_def ISA_defs)
  next
    case 17 then show ?thesis by (intro invalid) (simp add: cpu_run_step_def)
  qed
qed

lemma cpu_run_step_fail:
  assumes "cpu_run_step ram cpu = (False, ram', cpu')"
  shows "ram' = ram \<and> (running cpu' \<longrightarrow> cpu' = cpu \<and> operand_mode_fault ram cpu)"
proof (cases rule: cpu_run_step_cases [of ram cpu])
  case (arith f)
  then show ?thesis
    using assms binop_result(1,3) [of f ram cpu False ram' cpu']
    by (auto simp: operand_mode_fault_def)
next
  case div
  then show ?thesis
    using assms div_result(1,3) [of ram cpu False ram' cpu']
    by (auto simp: operand_mode_fault_def)
next
  case (other h)
  then show ?thesis
    using assms other_result(2) [OF other(1), of ram cpu False ram' cpu'] by auto
next
  case halt
  then show ?thesis using assms by simp
next
  case invalid
  then show ?thesis using assms by auto
qed

lemma cpu_run_step_ok:
  assumes "cpu_run_step ram cpu = (True, ram', cpu')" and "running cpu"
  shows "running cpu' \<or> (get_value_in_ram ram' cpu' 0 = ISA_HALT \<and> pc cpu' = pc cpu)"
proof (cases rule: cpu_run_step_cases [of ram cpu])
  case (arith f)
  then show ?thesis
    using assms binop_result(2) [of f ram cpu True ram' cpu'] by auto
next
  case div
  then show ?thesis
    using assms div_result(2) [of ram cpu True ram' cpu'] by auto
next
  case (other h)
  then show ?thesis
    using assms other_result(1) [OF other(1), of ram cpu True ram' cpu'] by auto
next
  case halt
  then show ?thesis using assms by (auto simp: get_value_in_ram_def)
next
  case invalid
  then show ?thesis using assms by auto
qed

lemma cpu_run_loop_result_aux:
  assumes "cpu_run_loop ram cpu e = Some r"
  shows "running cpu \<or> (get_value_in_ram ram cpu 0 = ISA_HALT \<and> pc cpu \<noteq> e) \<longrightarrow> run_post e r"
proof (rule cpu_run_loop.raw_induct
    [where P = "\<lambda>ram cpu e r.
       running cpu \<or> (get_value_in_ram ram cpu 0 = ISA_HALT \<and> pc cpu \<noteq> e) \<longrightarrow> run_post e r",
     OF _ assms])
  fix loop :: "RAM \<Rightarrow> CPU \<Rightarrow> u32 \<Rightarrow> (bool \<times> RAM \<times> CPU) option"
  fix ram cpu e r
  assume IH: "\<And>ram cpu e r. loop ram cpu e = Some r \<Longrightarrow>
     running cpu \<or> (get_value_in_ram ram cpu 0 = ISA_HALT \<and> pc cpu \<noteq> e) \<longrightarrow> run_post e r"
  assume eq: "(if running cpu \<and> pc cpu \<noteq> e then
        (case cpu_run_step ram cpu of
           (ok, ram', cpu') \<Rightarrow>
             if ok then loop ram' cpu' e
             else Some (False, ram', cpu'))
      else Some (True, ram, cpu)) = Some r"
  show "running cpu \<or> (get_value_in_ram ram cpu 0 = ISA_HALT \<and> pc cpu \<noteq> e) \<longrightarrow> run_post e r"
  proof (cases "running cpu \<and> pc cpu \<noteq> e")
    case False
    with eq have "r = (True, ram, cpu)" by (auto split: if_splits)
    with False show ?thesis by (auto simp: run_post_def)
  next
    case True
    obtain ok1 ram1 cpu1 where st: "cpu_run_step ram cpu = (ok1, ram1, cpu1)"
      by (cases "cpu_run_step ram cpu") auto
    show ?thesis
    proof (cases ok1)
      case ok: True
      with st True eq have "loop ram1 cpu1 e = Some r"
        by simp
      moreover have "running cpu1 \<or> (get_value_in_ram ram1 cpu1 0 = ISA_HALT \<and> pc cpu1 \<noteq> e)"
        using cpu_run_step_ok [of ram cpu ram1 cpu1] st ok True by auto
      ultimately show ?thesis using IH by blast
    next
      case fail: False
      with st True eq have "r = (False, ram1, cpu1)"
        by simp
      then show ?thesis
        using cpu_run_step_fail [of ram cpu ram1 cpu1] st fail by (auto simp: run_post_def)
    qed
  qed
qed

subsection \<open>The handlers and the words they fetch\<close>

lemmas on_words_defs =
  loadi_on_words_def loada_on_words_def loadm_on_words_def storem_on_words_def
  binop_on_words_def div_on_words_def jmp_on_words_def jz_on_words_def jnz_on_words_def
  cmp_on_words_def

text \<open>Every handler is its operation on the words that the accessor returns.\<close>

lemma handlers_on_words:
  "handle_loadi_execution ram cpu = loadi_on_words (get_value_in_ram ram cpu) ram cpu"
  "handle_loada_execution ram cpu = loada_on_words (get_value_in_ram ram cpu) ram cpu"
  "handle_loadm_execution ram cpu = loadm_on_words (get_value_in_ram ram cpu) ram cpu"
  "handle_storem_execution ram cpu = storem_on_words (get_value_in_ram ram cpu) ram cpu"
  "handle_binop_execution f ram cpu = binop_on_words f (get_value_in_ram ram cpu) ram cpu"
  "handle_div_execution ram cpu = div_on_words (get_value_in_ram ram cpu) ram cpu"
  "handle_jmp_execution ram cpu = jmp_on_words (get_value_in_ram ram cpu) ram cpu"
  "handle_jz_execution ram cpu = jz_on_words (get_value_in_ram ram cpu) ram cpu"
  "handle_jnz_execution ram cpu = jnz_on_words (get_value_in_ram ram cpu) ram cpu"
  "handle_cmp_execution ram cpu = cmp_on_words (get_value_in_ram ram cpu) ram cpu"
  by (simp_all only: handle_loadi_execution_def handle_loada_execution_def
      handle_loadm_execution_def handle_storem_execution_def handle_binop_execution_def
      handle_div_execution_def handle_jmp_execution_def handle_jz_execution_def
      handle_jnz_execution_def handle_cmp_execution_def on_words_defs)

lemma cpu_run_step_on_words:
  "cpu_run_step ram cpu = step_on_words (get_value_in_ram ram cpu) ram cpu"
  by (simp only: cpu_run_step_def step_on_words_def handlers_on_words
      handle_add_execution_def handle_sub_execution_def handle_mlp_execution_def
      handle_and_execution_def handle_or_execution_def handle_xor_execution_def)

text \<open>A fetch at an index beyond the memory returns 0, so the words fetched are these.\<close>

lemma fetched_zero:
  "RAM_SIZE \<le> unat (pc cpu + skip) \<Longrightarrow>
   (get_value_in_ram ram cpu)(skip := 0) = get_value_in_ram ram cpu"
  by (rule fun_upd_idem) (simp add: get_value_in_ram_def)

text \<open>A step that succeeds on an instruction other than halt leaves \<^verbatim>\<open>running\<close> as it was.\<close>

lemma cpu_run_step_running:
  assumes "cpu_run_step ram cpu = (True, ram', cpu')"
    and "get_value_in_ram ram cpu 0 \<noteq> ISA_HALT"
  shows "running cpu' = running cpu"
proof (cases rule: cpu_run_step_cases [of ram cpu])
  case (arith f)
  then show ?thesis
    using assms binop_result(2) [of f ram cpu True ram' cpu'] by auto
next
  case div
  then show ?thesis
    using assms div_result(2) [of ram cpu True ram' cpu'] by auto
next
  case (other h)
  then show ?thesis
    using assms other_result(1) [OF other(1), of ram cpu True ram' cpu'] by auto
next
  case halt
  then show ?thesis using assms by simp
next
  case invalid
  then show ?thesis using assms by simp
qed

subsection \<open>Register operands out of range\<close>

lemma binop_bad_register:
  assumes "MAX_REGISTERS \<le> unat (get_value_in_ram ram cpu 1) \<or>
           (get_value_in_ram ram cpu 2 = OPERAND_REGISTER \<and> MAX_REGISTERS \<le> unat (get_value_in_ram ram cpu 3))"
  shows "handle_binop_execution f ram cpu = (False, ram, cpu\<lparr>running := False\<rparr>)"
    and "handle_div_execution ram cpu = (False, ram, cpu\<lparr>running := False\<rparr>)"
  using assms
  by (auto simp: handle_binop_execution_def handle_div_execution_def resolve_src_value_def
      validator_defs mode_defs Let_def)

lemma step_bad_register:
  assumes "register_operand_out_of_range ram cpu"
  shows "cpu_run_step ram cpu = (False, ram, cpu\<lparr>running := False\<rparr>)"
proof -
  let ?i = "get_value_in_ram ram cpu 0"
  consider (loadi) "?i = ISA_LOADI" "MAX_REGISTERS \<le> unat (get_value_in_ram ram cpu 1)"
    | (loadm) "?i = ISA_LOADM" "MAX_REGISTERS \<le> unat (get_value_in_ram ram cpu 1)"
    | (storem) "?i = ISA_STOREM" "MAX_REGISTERS \<le> unat (get_value_in_ram ram cpu 3)"
    | (arith) "is_arith_opcode ?i"
        "MAX_REGISTERS \<le> unat (get_value_in_ram ram cpu 1) \<or>
         (get_value_in_ram ram cpu 2 = OPERAND_REGISTER \<and> MAX_REGISTERS \<le> unat (get_value_in_ram ram cpu 3))"
    | (cmp) "?i = ISA_CMP"
        "MAX_REGISTERS \<le> unat (get_value_in_ram ram cpu 1) \<or> MAX_REGISTERS \<le> unat (get_value_in_ram ram cpu 2)"
    using assms unfolding register_operand_out_of_range_def Let_def by blast
  then show ?thesis
  proof cases
    case loadi
    then show ?thesis
      by (simp add: cpu_run_step_def handle_loadi_execution_def validator_defs ISA_defs Let_def)
  next
    case loadm
    then show ?thesis
      by (simp add: cpu_run_step_def handle_loadm_execution_def validator_defs ISA_defs Let_def)
  next
    case storem
    then show ?thesis
      by (simp add: cpu_run_step_def handle_storem_execution_def validator_defs ISA_defs Let_def)
  next
    case arith
    from arith(1) show ?thesis
      unfolding is_arith_opcode_def
      by (elim disjE)
        (simp_all add: cpu_run_step_def ISA_defs handle_add_execution_def
          handle_sub_execution_def handle_mlp_execution_def handle_and_execution_def
          handle_or_execution_def handle_xor_execution_def binop_bad_register [OF arith(2)])
  next
    case cmp
    then show ?thesis
      by (auto simp: cpu_run_step_def handle_cmp_execution_def validator_defs ISA_defs Let_def)
  qed
qed

subsection \<open>Evaluating the assembler\<close>

text \<open>The facts that evaluate the assembler on a concrete source.\<close>

lemmas asm_eval =
  assemble_def first_pass_line_def first_pass_mnemonic_def second_pass_line_def
  second_pass_emit_def clean_line_def directive_value_def parse_directive_def
  remove_leading_whitespaces_def remove_trailing_whitespaces_def strip_comments_def
  is_empty_line_def copy_line_def token_def operand_delim_def blank_delim_def
  get_opcode_def opcode_table_def FAILURE_def first_pass_size_def
  handle_arithmetic_instruction_def handle_loadi_instruction_def handle_loada_instruction_def
  handle_loadm_instruction_def handle_storem_instruction_def handle_cmp_instruction_def
  handle_jmp_instructions_def require_two_operands_def require_one_operand_def
  require_all_not_failure_def skip_hash_def parse_register_def parse_address_def
  parse_address_parenthesis_def strtol_def isspace_def digit_value_def is_digit_of_def
  char_at_def char_code_def long_to_int_def LONG_MAX_def LONG_MIN_def emit_def add_label_def
  is_reg_index_valid_asm_def is_addr_index_valid_asm_def is_addr_literal_valid_def
  MAX_REGISTERS_def MAX_ADDRESS_REGISTERS_def MAX_LABELS_def RAM_SIZE_def
  ISA_defs mode_defs Let_def

subsection \<open>The word counts, opcode by opcode\<close>

lemma opcode_cases:
  assumes "opcode \<in> set (map snd opcode_table)"
  obtains "opcode = ISA_LOADI" | "opcode = ISA_LOADA" | "opcode = ISA_LOADM"
    | "opcode = ISA_STOREM" | "opcode = ISA_ADD" | "opcode = ISA_SUB" | "opcode = ISA_MLP"
    | "opcode = ISA_DIV" | "opcode = ISA_AND" | "opcode = ISA_OR" | "opcode = ISA_XOR"
    | "opcode = ISA_JMP" | "opcode = ISA_JZ" | "opcode = ISA_JNZ" | "opcode = ISA_CMP"
    | "opcode = ISA_HALT"
  using assms unfolding opcode_table_def by auto

lemma first_pass_size_agrees:
  assumes "opcode \<in> set (map snd opcode_table)" and "opcode \<noteq> ISA_CMP"
  shows "first_pass_size (uint opcode) = spec_word_count opcode"
  using assms(1)
  by (cases rule: opcode_cases)
    (use assms(2) in \<open>simp_all add: first_pass_size_def spec_word_count_def is_arith_opcode_def
      ISA_defs\<close>)

lemma interpreter_advance:
  assumes "opcode \<in> set (map snd opcode_table)"
    and "get_value_in_ram ram cpu 0 = opcode"
    and "cpu_run_step ram cpu = (True, ram', cpu')"
    and "\<not> taken_transfer opcode cpu"
  shows "pc cpu' = pc cpu + (if opcode = ISA_HALT then 0 else spec_word_count opcode)"
  using assms(1)
proof (cases rule: opcode_cases)
  case 1
  then show ?thesis using assms(2,3)
    by (auto simp: cpu_run_step_def spec_word_count_def ISA_defs handle_loadi_execution_def
        validator_defs increase_pc_def Let_def split: if_splits)
next
  case 2
  then show ?thesis using assms(2,3)
    by (auto simp: cpu_run_step_def spec_word_count_def ISA_defs handle_loada_execution_def
        validator_defs increase_pc_def Let_def split: if_splits)
next
  case 3
  then show ?thesis using assms(2,3)
    by (auto simp: cpu_run_step_def spec_word_count_def ISA_defs handle_loadm_execution_def
        resolve_target_address_def validator_defs increase_pc_def Let_def split: if_splits)
next
  case 4
  then show ?thesis using assms(2,3)
    by (auto simp: cpu_run_step_def spec_word_count_def ISA_defs handle_storem_execution_def
        resolve_target_address_def validator_defs increase_pc_def Let_def split: if_splits)
next
  case 5
  then show ?thesis using assms(2,3)
    by (auto simp: cpu_run_step_def spec_word_count_def is_arith_opcode_def ISA_defs
        handle_add_execution_def handle_binop_execution_def resolve_src_value_def
        validator_defs increase_pc_def Let_def split: if_splits)
next
  case 6
  then show ?thesis using assms(2,3)
    by (auto simp: cpu_run_step_def spec_word_count_def is_arith_opcode_def ISA_defs
        handle_sub_execution_def handle_binop_execution_def resolve_src_value_def
        validator_defs increase_pc_def Let_def split: if_splits)
next
  case 7
  then show ?thesis using assms(2,3)
    by (auto simp: cpu_run_step_def spec_word_count_def is_arith_opcode_def ISA_defs
        handle_mlp_execution_def handle_binop_execution_def resolve_src_value_def
        validator_defs increase_pc_def Let_def split: if_splits)
next
  case 8
  then show ?thesis using assms(2,3)
    by (auto simp: cpu_run_step_def spec_word_count_def is_arith_opcode_def ISA_defs
        handle_div_execution_def resolve_src_value_def
        validator_defs increase_pc_def Let_def split: if_splits)
next
  case 9
  then show ?thesis using assms(2,3)
    by (auto simp: cpu_run_step_def spec_word_count_def is_arith_opcode_def ISA_defs
        handle_and_execution_def handle_binop_execution_def resolve_src_value_def
        validator_defs increase_pc_def Let_def split: if_splits)
next
  case 10
  then show ?thesis using assms(2,3)
    by (auto simp: cpu_run_step_def spec_word_count_def is_arith_opcode_def ISA_defs
        handle_or_execution_def handle_binop_execution_def resolve_src_value_def
        validator_defs increase_pc_def Let_def split: if_splits)
next
  case 11
  then show ?thesis using assms(2,3)
    by (auto simp: cpu_run_step_def spec_word_count_def is_arith_opcode_def ISA_defs
        handle_xor_execution_def handle_binop_execution_def resolve_src_value_def
        validator_defs increase_pc_def Let_def split: if_splits)
next
  case 12
  then show ?thesis using assms(4) by (simp add: taken_transfer_def)
next
  case 13
  then show ?thesis using assms(2,3,4)
    by (auto simp: cpu_run_step_def spec_word_count_def is_arith_opcode_def ISA_defs
        taken_transfer_def handle_jz_execution_def validator_defs increase_pc_def Let_def
        split: if_splits)
next
  case 14
  then show ?thesis using assms(2,3,4)
    by (auto simp: cpu_run_step_def spec_word_count_def is_arith_opcode_def ISA_defs
        taken_transfer_def handle_jnz_execution_def validator_defs increase_pc_def Let_def
        split: if_splits)
next
  case 15
  then show ?thesis using assms(2,3)
    by (auto simp: cpu_run_step_def spec_word_count_def is_arith_opcode_def ISA_defs
        handle_cmp_execution_def validator_defs increase_pc_def Let_def split: if_splits)
next
  case 16
  then show ?thesis using assms(2,3)
    by (auto simp: cpu_run_step_def ISA_defs split: if_splits)
qed

subsection \<open>What the second pass emits\<close>

lemma emit_Some:
  assumes "emit ram cpu w = Some (ram', cpu')"
  shows "unat (pc cpu) < RAM_SIZE"
    and "ram' = ram\<lparr>cells := (cells ram)(unat (pc cpu) := w)\<rparr>"
    and "cpu' = cpu\<lparr>pc := pc cpu + 1\<rparr>"
    and "unat (pc cpu') = unat (pc cpu) + 1"
proof -
  show a: "unat (pc cpu) < RAM_SIZE" and "ram' = ram\<lparr>cells := (cells ram)(unat (pc cpu) := w)\<rparr>"
    and c: "cpu' = cpu\<lparr>pc := pc cpu + 1\<rparr>"
    using assms by (auto simp: emit_def split: if_splits)
  have "unat (pc cpu + 1) = unat (pc cpu) + 1"
    using a by (simp add: RAM_SIZE_def unat_word_ariths)
  then show "unat (pc cpu') = unat (pc cpu) + 1" using c by simp
qed

lemma emit_all_Some:
  assumes "emit_all ram cpu ws = Some (ram', cpu')"
  shows "cpu' = cpu\<lparr>pc := pc cpu + of_nat (length ws)\<rparr>
       \<and> unat (pc cpu') = unat (pc cpu) + length ws
       \<and> (\<forall>i < length ws. cells ram' (unat (pc cpu) + i) = ws ! i)
       \<and> (\<forall>a. a < unat (pc cpu) \<or> unat (pc cpu) + length ws \<le> a \<longrightarrow> cells ram' a = cells ram a)"
  using assms
proof (induction ws arbitrary: ram cpu)
  case Nil
  then show ?case by simp
next
  case (Cons w ws)
  then obtain ram1 cpu1 where e: "emit ram cpu w = Some (ram1, cpu1)"
    and r: "emit_all ram1 cpu1 ws = Some (ram', cpu')"
    by (auto split: option.splits)
  note s = emit_Some [OF e]
  note ih = Cons.IH [OF r]
  have 1: "cpu' = cpu\<lparr>pc := pc cpu + of_nat (length (w # ws))\<rparr>"
    using ih s(3) by (simp add: add.assoc add.commute)
  have ih2: "unat (pc cpu') = unat (pc cpu1) + length ws"
    using ih by blast
  have 2: "unat (pc cpu') = unat (pc cpu) + length (w # ws)"
    using ih2 s(4) by simp
  have 3: "cells ram' (unat (pc cpu) + i) = (w # ws) ! i" if "i < length (w # ws)" for i
  proof (cases i)
    case 0
    then show ?thesis using ih s(2,4) by simp
  next
    case (Suc j)
    then show ?thesis using ih s(4) that by simp
  qed
  have 4: "cells ram' a = cells ram a"
    if "a < unat (pc cpu) \<or> unat (pc cpu) + length (w # ws) \<le> a" for a
    using ih s(2,4) that by auto
  from 1 2 3 4 show ?case by blast
qed

lemma emit_chain1:
  "do { (ram, cpu) \<leftarrow> emit ram cpu a; Some (True, ram, cpu) }
   = map_option (\<lambda>(r, c). (True, r, c)) (emit_all ram cpu [a])"
  by (simp split: option.splits)

lemma emit_chain2:
  "do { (ram, cpu) \<leftarrow> emit ram cpu a; (ram, cpu) \<leftarrow> emit ram cpu b; Some (True, ram, cpu) }
   = map_option (\<lambda>(r, c). (True, r, c)) (emit_all ram cpu [a, b])"
  by (simp split: option.splits)

lemma emit_chain3:
  "do { (ram, cpu) \<leftarrow> emit ram cpu a; (ram, cpu) \<leftarrow> emit ram cpu b;
        (ram, cpu) \<leftarrow> emit ram cpu c; Some (True, ram, cpu) }
   = map_option (\<lambda>(r, c). (True, r, c)) (emit_all ram cpu [a, b, c])"
  by (simp split: option.splits)

lemma emit_chain4:
  "do { (ram, cpu) \<leftarrow> emit ram cpu a; (ram, cpu) \<leftarrow> emit ram cpu b;
        (ram, cpu) \<leftarrow> emit ram cpu c; (ram, cpu) \<leftarrow> emit ram cpu d; Some (True, ram, cpu) }
   = map_option (\<lambda>(r, c). (True, r, c)) (emit_all ram cpu [a, b, c, d])"
  by (simp split: option.splits)

lemmas emit_chain = emit_chain1 emit_chain2 emit_chain3 emit_chain4

lemma emitted_fail [simp]: "emitted n opcode ram cpu (Some (False, ram, cpu))"
  by (simp add: emitted_def)

lemma emitted_chain:
  "length ws = n \<Longrightarrow> hd ws = opcode \<Longrightarrow>
   emitted n opcode ram cpu (map_option (\<lambda>(r, c). (True, r, c)) (emit_all ram cpu ws))"
  by (auto simp: emitted_def split: option.splits)

lemma emitted_do1 [simp]:
  "emitted (Suc 0) a ram cpu (do { (ram, cpu) \<leftarrow> emit ram cpu a; Some (True, ram, cpu) })"
  unfolding emit_chain1 by (rule emitted_chain) simp_all

lemma emitted_do2 [simp]:
  "emitted 2 a ram cpu
     (do { (ram, cpu) \<leftarrow> emit ram cpu a; (ram, cpu) \<leftarrow> emit ram cpu b; Some (True, ram, cpu) })"
  unfolding emit_chain2 by (rule emitted_chain) simp_all

lemma emitted_do3 [simp]:
  "emitted 3 a ram cpu
     (do { (ram, cpu) \<leftarrow> emit ram cpu a; (ram, cpu) \<leftarrow> emit ram cpu b;
           (ram, cpu) \<leftarrow> emit ram cpu c; Some (True, ram, cpu) })"
  unfolding emit_chain3 by (rule emitted_chain) simp_all

lemma emitted_do4 [simp]:
  "emitted 4 a ram cpu
     (do { (ram, cpu) \<leftarrow> emit ram cpu a; (ram, cpu) \<leftarrow> emit ram cpu b;
           (ram, cpu) \<leftarrow> emit ram cpu c; (ram, cpu) \<leftarrow> emit ram cpu d;
           Some (True, ram, cpu) })"
  unfolding emit_chain4 by (rule emitted_chain) simp_all

lemma loadi_emitted: "emitted 3 ISA_LOADI ram cpu (handle_loadi_instruction ram cpu op1 op2)"
  by (simp add: handle_loadi_instruction_def Let_def)

lemma loada_emitted: "emitted 3 ISA_LOADA ram cpu (handle_loada_instruction ram cpu op1 op2)"
  by (simp add: handle_loada_instruction_def Let_def)

lemma loadm_emitted: "emitted 4 ISA_LOADM ram cpu (handle_loadm_instruction ram cpu op1 op2)"
  by (simp add: handle_loadm_instruction_def Let_def split: prod.splits)

lemma storem_emitted: "emitted 4 ISA_STOREM ram cpu (handle_storem_instruction ram cpu op1 op2)"
  by (simp add: handle_storem_instruction_def Let_def split: prod.splits)

lemma arithmetic_emitted:
  "emitted 4 opcode ram cpu (handle_arithmetic_instruction ram cpu opcode op1 op2)"
  by (simp add: handle_arithmetic_instruction_def Let_def split: prod.splits)

lemma cmp_emitted: "emitted 3 ISA_CMP ram cpu (handle_cmp_instruction ram cpu op1 op2)"
  by (simp add: handle_cmp_instruction_def Let_def)

lemma jmp_emitted:
  "emitted 2 (word_of_int opcode) ram cpu (handle_jmp_instructions ram cpu opcode op1 labels)"
  by (simp add: handle_jmp_instructions_def Let_def)

lemma second_pass_emitted:
  assumes "opcode \<in> set (map snd opcode_table)"
  shows "emitted (unat (spec_word_count opcode)) opcode ram cpu
           (second_pass_emit ram cpu (uint opcode) op1 op2 labels)"
  using assms
proof (cases rule: opcode_cases)
  case 1 then show ?thesis using loadi_emitted [of ram cpu op1 op2]
    by (simp add: second_pass_emit_def spec_word_count_def ISA_defs)
next
  case 2 then show ?thesis using loada_emitted [of ram cpu op1 op2]
    by (simp add: second_pass_emit_def spec_word_count_def ISA_defs)
next
  case 3 then show ?thesis using loadm_emitted [of ram cpu op1 op2]
    by (simp add: second_pass_emit_def spec_word_count_def ISA_defs)
next
  case 4 then show ?thesis using storem_emitted [of ram cpu op1 op2]
    by (simp add: second_pass_emit_def spec_word_count_def ISA_defs)
next
  case 5 then show ?thesis using arithmetic_emitted [of ISA_ADD ram cpu op1 op2]
    by (simp add: second_pass_emit_def spec_word_count_def is_arith_opcode_def ISA_defs)
next
  case 6 then show ?thesis using arithmetic_emitted [of ISA_SUB ram cpu op1 op2]
    by (simp add: second_pass_emit_def spec_word_count_def is_arith_opcode_def ISA_defs)
next
  case 7 then show ?thesis using arithmetic_emitted [of ISA_MLP ram cpu op1 op2]
    by (simp add: second_pass_emit_def spec_word_count_def is_arith_opcode_def ISA_defs)
next
  case 8 then show ?thesis using arithmetic_emitted [of ISA_DIV ram cpu op1 op2]
    by (simp add: second_pass_emit_def spec_word_count_def is_arith_opcode_def ISA_defs)
next
  case 9 then show ?thesis using arithmetic_emitted [of ISA_AND ram cpu op1 op2]
    by (simp add: second_pass_emit_def spec_word_count_def is_arith_opcode_def ISA_defs)
next
  case 10 then show ?thesis using arithmetic_emitted [of ISA_OR ram cpu op1 op2]
    by (simp add: second_pass_emit_def spec_word_count_def is_arith_opcode_def ISA_defs)
next
  case 11 then show ?thesis using arithmetic_emitted [of ISA_XOR ram cpu op1 op2]
    by (simp add: second_pass_emit_def spec_word_count_def is_arith_opcode_def ISA_defs)
next
  case 12 then show ?thesis using jmp_emitted [of "uint ISA_JMP" ram cpu op1 labels]
    by (simp add: second_pass_emit_def spec_word_count_def is_arith_opcode_def ISA_defs)
next
  case 13 then show ?thesis using jmp_emitted [of "uint ISA_JZ" ram cpu op1 labels]
    by (simp add: second_pass_emit_def spec_word_count_def is_arith_opcode_def ISA_defs)
next
  case 14 then show ?thesis using jmp_emitted [of "uint ISA_JNZ" ram cpu op1 labels]
    by (simp add: second_pass_emit_def spec_word_count_def is_arith_opcode_def ISA_defs)
next
  case 15 then show ?thesis using cmp_emitted [of ram cpu op1 op2]
    by (simp add: second_pass_emit_def spec_word_count_def is_arith_opcode_def ISA_defs)
next
  case 16 then show ?thesis
    using emitted_do1 [of ISA_HALT ram cpu]
    by (simp add: second_pass_emit_def spec_word_count_def is_arith_opcode_def ISA_defs
        del: emitted_do1)
qed

section \<open>Memory: store and load\<close>

text \<open>
  C4. For every address \<open>a\<close> below 65536 and every value \<open>v\<close>, a store of \<open>v\<close> at \<open>a\<close>
  succeeds and a load at \<open>a\<close> from the memory it leaves returns \<open>v\<close>. For every address
  from 65536 on, the store and the load both return failure; the memory is the one before
  the call and the output cell keeps its content.
\<close>

theorem ram_store_load:
  "(unat a < 65536 \<longrightarrow>
      ram_store (Some ram) a v = (True, Some (ram\<lparr>cells := (cells ram)(unat a := v)\<rparr>))
    \<and> ram_load (Some (ram\<lparr>cells := (cells ram)(unat a := v)\<rparr>)) a (Some out)
        = (True, Some (ram\<lparr>cells := (cells ram)(unat a := v)\<rparr>), Some v))
 \<and> (65536 \<le> unat a \<longrightarrow>
      ram_store (Some ram) a v = (False, Some ram)
    \<and> ram_load (Some ram) a (Some out) = (False, Some ram, Some out))"
  by (simp add: ram_store_def ram_load_def is_address_valid_def RAM_SIZE_def)

theorem ram_store_load_witness:
  "ram_store (Some ram_init) 65535 7
     = (True, Some (ram_init\<lparr>cells := (cells ram_init)(65535 := 7)\<rparr>))
   \<and> ram_load (Some (ram_init\<lparr>cells := (cells ram_init)(65535 := 7)\<rparr>)) 65535 (Some 0)
     = (True, Some (ram_init\<lparr>cells := (cells ram_init)(65535 := 7)\<rparr>), Some 7)
   \<and> ram_store (Some ram_init) 65536 7 = (False, Some ram_init)
   \<and> ram_load (Some ram_init) 65536 (Some 9) = (False, Some ram_init, Some 9)"
  using ram_store_load [of 65535 ram_init 7 0] ram_store_load [of 65536 ram_init 7 9]
  by simp

section \<open>Validation: the memory range\<close>

lemma unat_last:
  fixes start sz :: u32
  assumes "sz \<noteq> 0"
  shows "unat (start + sz - 1) = (unat start + (unat sz - 1)) mod 2 ^ 32"
proof -
  have "unat (sz - 1) = unat sz - 1"
    using assms by (simp add: unat_minus_one)
  moreover have "start + sz - 1 = start + (sz - 1)" by simp
  ultimately show ?thesis
    by (simp only: unat_word_ariths) simp
qed

lemma is_memory_access_valid_iff:
  "is_memory_access_valid start sz =
     (unat start < 65536 \<and> (sz = 0 \<or> unat start + unat sz \<le> 65536))"
proof (cases "sz = 0")
  case True
  then show ?thesis by (simp add: is_memory_access_valid_def RAM_SIZE_def)
next
  case False
  then have s: "0 < unat sz" by (simp add: unat_gt_0)
  have b: "unat sz < 2 ^ 32" using unsigned_less [of sz, where ?'a = nat] by simp
  show ?thesis
  proof (cases "unat start < 65536")
    case False
    then show ?thesis by (simp add: is_memory_access_valid_def RAM_SIZE_def)
  next
    case True
    show ?thesis
    proof (cases "unat start + (unat sz - 1) < 2 ^ 32")
      case nowrap: True
      then have "unat (start + sz - 1) = unat start + (unat sz - 1)"
        using unat_last [OF \<open>sz \<noteq> 0\<close>, of start] by simp
      then show ?thesis
        using True s \<open>sz \<noteq> 0\<close>
        by (auto simp: is_memory_access_valid_def RAM_SIZE_def Let_def word_less_nat_alt)
    next
      case wrap: False
      then have "unat (start + sz - 1) = unat start + (unat sz - 1) - 2 ^ 32"
        using unat_last [OF \<open>sz \<noteq> 0\<close>, of start] b True
        by (simp add: mod_if)
      then show ?thesis
        using True s b wrap \<open>sz \<noteq> 0\<close>
        by (auto simp: is_memory_access_valid_def RAM_SIZE_def Let_def word_less_nat_alt)
    qed
  qed
qed

lemma spec_memory_range_valid_iff:
  "spec_memory_range_valid start sz =
     (unat start < 65536 \<and> 0 < unat start + unat sz \<and> unat start + unat sz \<le> 65536)"
  unfolding spec_memory_range_valid_def Let_def
  by (auto simp del: of_nat_unat)

text \<open>
  C8 as stated: the predicate returns success if and only if \<open>start < 65536\<close> and
  \<open>start + size - 1\<close> does not overflow and is below 65536. It fails for the empty range
  at address 0: the code accepts every range of size 0 that starts inside the memory
  (\<^verbatim>\<open>if (size == 0) return true\<close>), while \<open>0 + 0 - 1\<close> is not a value below 65536.
\<close>

theorem memory_range_valid_counterexample:
  "is_memory_access_valid 0 0 \<and> \<not> spec_memory_range_valid 0 0"
  by (simp add: is_memory_access_valid_def spec_memory_range_valid_def RAM_SIZE_def)

text \<open>
  C8, amended: the predicate returns success if and only if \<open>start < 65536\<close> and either
  the size is 0 or \<open>start + size - 1\<close> does not overflow and is below 65536.
\<close>

theorem memory_range_valid_amended:
  "is_memory_access_valid start sz =
     (unat start < 65536 \<and> (sz = 0 \<or> spec_memory_range_valid start sz))"
  by (auto simp: is_memory_access_valid_iff spec_memory_range_valid_iff unat_gt_0)

theorem memory_range_valid_amended_witness:
  "is_memory_access_valid 65535 1 \<and> spec_memory_range_valid 65535 1
   \<and> \<not> is_memory_access_valid 65535 2 \<and> \<not> spec_memory_range_valid 65535 2
   \<and> \<not> is_memory_access_valid 1 0xFFFFFFFF \<and> is_memory_access_valid 7 0"
  using memory_range_valid_amended [of 65535 1] memory_range_valid_amended [of 65535 2]
    memory_range_valid_amended [of 1 "0xFFFFFFFF"] memory_range_valid_amended [of 7 0]
  by (simp add: spec_memory_range_valid_def)

section \<open>Interpreter: the handlers\<close>

text \<open>
  C7. For every execution of jump-if-zero with an in-bounds target, the program counter is
  assigned the target when the zero flag is set and advances by 2 words otherwise; for
  jump-if-not-zero, it is assigned the target when the zero flag is clear and advances by 2
  words otherwise. Nothing else of the processor state or of the memory changes.
\<close>

theorem conditional_jumps:
  assumes "unat (get_value_in_ram ram cpu 1) < RAM_SIZE"
  shows "(get_value_in_ram ram cpu 0 = ISA_JZ \<longrightarrow>
            cpu_run_step ram cpu =
              (True, ram,
               cpu\<lparr>pc := (if zero_flag cpu then get_value_in_ram ram cpu 1 else pc cpu + 2)\<rparr>))
       \<and> (get_value_in_ram ram cpu 0 = ISA_JNZ \<longrightarrow>
            cpu_run_step ram cpu =
              (True, ram,
               cpu\<lparr>pc := (if \<not> zero_flag cpu then get_value_in_ram ram cpu 1 else pc cpu + 2)\<rparr>))
       \<and> handle_jz_execution ram cpu =
            (True, ram,
             cpu\<lparr>pc := (if zero_flag cpu then get_value_in_ram ram cpu 1 else pc cpu + 2)\<rparr>)
       \<and> handle_jnz_execution ram cpu =
            (True, ram,
             cpu\<lparr>pc := (if \<not> zero_flag cpu then get_value_in_ram ram cpu 1 else pc cpu + 2)\<rparr>)"
  using assms
  by (simp add: cpu_run_step_def ISA_defs handle_jz_execution_def handle_jnz_execution_def
      is_addr_literal_valid_runtime_def increase_pc_def Let_def)

theorem conditional_jumps_witness:
  "unat (get_value_in_ram \<lparr>cells = (\<lambda>_. 0)(4 := 0x0D, 5 := 0x10)\<rparr>
           (cpu_init\<lparr>pc := 4, zero_flag := True\<rparr>) 1) < RAM_SIZE
   \<and> cpu_run_step \<lparr>cells = (\<lambda>_. 0)(4 := 0x0D, 5 := 0x10)\<rparr>
        (cpu_init\<lparr>pc := 4, zero_flag := True\<rparr>)
      = (True, \<lparr>cells = (\<lambda>_. 0)(4 := 0x0D, 5 := 0x10)\<rparr>,
         cpu_init\<lparr>pc := 0x10, zero_flag := True\<rparr>)
   \<and> cpu_run_step \<lparr>cells = (\<lambda>_. 0)(4 := 0x0E, 5 := 0x10)\<rparr>
        (cpu_init\<lparr>pc := 4, zero_flag := True\<rparr>)
      = (True, \<lparr>cells = (\<lambda>_. 0)(4 := 0x0E, 5 := 0x10)\<rparr>,
         cpu_init\<lparr>pc := 6, zero_flag := True\<rparr>)"
proof -
  have h: "unat (get_value_in_ram \<lparr>cells = (\<lambda>_. 0)(4 := 0x0D, 5 := 0x10)\<rparr>
           (cpu_init\<lparr>pc := 4, zero_flag := True\<rparr>) 1) < RAM_SIZE"
    by (simp add: get_value_in_ram_def cpu_init_def RAM_SIZE_def)
  have h': "unat (get_value_in_ram \<lparr>cells = (\<lambda>_. 0)(4 := 0x0E, 5 := 0x10)\<rparr>
           (cpu_init\<lparr>pc := 4, zero_flag := True\<rparr>) 1) < RAM_SIZE"
    by (simp add: get_value_in_ram_def cpu_init_def RAM_SIZE_def)
  show ?thesis
    using h conditional_jumps [OF h] conditional_jumps [OF h']
    by (simp add: get_value_in_ram_def cpu_init_def RAM_SIZE_def ISA_defs)
qed

lemma sint_diff_exact:
  fixes a b :: u32
  assumes "- (2 ^ 31) \<le> sint a - sint b" "sint a - sint b < 2 ^ 31"
  shows "sint (a - b) = sint a - sint b"
  using assms
  by (simp add: sint_word_diff signed_take_bit_int_eq_self)

text \<open>
  What the compare handler does, for two valid register indices: it subtracts the two
  registers in 32 bits, sets the zero flag exactly when that 32-bit difference is zero and
  the negative flag exactly when it is negative as a signed value, writes no register and
  advances the program counter by 3. The 32-bit difference is zero exactly when the two
  registers are equal, and it is the difference of the two signed values whenever that fits
  in 32 bits.
\<close>

lemma compare_wrapped_difference:
  assumes "get_value_in_ram ram cpu 0 = ISA_CMP"
    and "unat (get_value_in_ram ram cpu 1) < MAX_REGISTERS"
    and "unat (get_value_in_ram ram cpu 2) < MAX_REGISTERS"
    and "a = registers cpu (unat (get_value_in_ram ram cpu 1))"
    and "b = registers cpu (unat (get_value_in_ram ram cpu 2))"
  shows "cpu_run_step ram cpu =
           (True, ram,
            cpu\<lparr>zero_flag := (sint (a - b) = 0), negative_flag := (sint (a - b) < 0),
                 pc := pc cpu + 3\<rparr>)
       \<and> registers (snd (snd (cpu_run_step ram cpu))) = registers cpu
       \<and> ((sint (a - b) = 0) = (a = b))
       \<and> (- (2 ^ 31) \<le> sint a - sint b \<and> sint a - sint b < 2 ^ 31 \<longrightarrow>
            sint (a - b) = sint a - sint b)"
  using assms
  by (simp add: cpu_run_step_def ISA_defs handle_cmp_execution_def
      is_reg_index_valid_runtime_def increase_pc_def Let_def sint_diff_exact signed_eq_0_iff)

text \<open>
  C6. The compare instruction with two valid register indices is to set the negative flag
  exactly when the signed difference of the two registers is negative, that is when the
  first register is less than the second as signed values (\<^verbatim>\<open>isa.h\<close>: ``sets zero_flag if
  equal and negative_flag if R[i] < R[j]''). The handler does not: where the signed
  difference does not fit in 32 bits, the flag gets the sign of the wrapped difference.
  The program \<^verbatim>\<open>LOADI R0, 0x80000000\<close>, \<^verbatim>\<open>LOADI R1, 1\<close>, \<^verbatim>\<open>CMP R0, R1\<close>, \<^verbatim>\<open>HALT\<close> compares
  \<open>-2147483648\<close> with \<open>1\<close>: the signed difference is \<open>-2147483649\<close>, and the run ends with
  the negative flag clear. Comparing \<open>2147483647\<close> with \<open>-1\<close>, whose signed difference is
  \<open>2147483648\<close>, sets the negative flag.
\<close>

theorem compare_signed_overflow:
  "cpu_run cpu_init
     \<lparr>cells = (\<lambda>_. 0)(0 := 1, 1 := 0, 2 := 0x80000000, 3 := 1, 4 := 1, 5 := 1,
        6 := 0x0F, 7 := 0, 8 := 1, 9 := 0xFF)\<rparr> (range_upto 10)
   = Some (True,
       \<lparr>cells = (\<lambda>_. 0)(0 := 1, 1 := 0, 2 := 0x80000000, 3 := 1, 4 := 1, 5 := 1,
          6 := 0x0F, 7 := 0, 8 := 1, 9 := 0xFF)\<rparr>,
       \<lparr>pc = 9, address_registers = (\<lambda>_. 0), registers = (\<lambda>_. 0)(0 := 0x80000000, 1 := 1),
        zero_flag = False, negative_flag = False, running = False\<rparr>)
   \<and> sint (0x80000000 :: u32) - sint (1 :: u32) = - 2147483649
   \<and> sint (0x80000000 :: u32) < sint (1 :: u32)
   \<and> handle_cmp_execution \<lparr>cells = (\<lambda>_. 0)(0 := 0x0F, 1 := 0, 2 := 1)\<rparr>
       (cpu_init\<lparr>registers := (\<lambda>_. 0)(0 := 0x7FFFFFFF, 1 := 0xFFFFFFFF)\<rparr>)
     = (True, \<lparr>cells = (\<lambda>_. 0)(0 := 0x0F, 1 := 0, 2 := 1)\<rparr>,
        cpu_init\<lparr>registers := (\<lambda>_. 0)(0 := 0x7FFFFFFF, 1 := 0xFFFFFFFF),
          zero_flag := False, negative_flag := True, pc := 3\<rparr>)
   \<and> sint (0x7FFFFFFF :: u32) - sint (0xFFFFFFFF :: u32) = 2147483648"
proof -
  have r: "cpu_run cpu_init
     \<lparr>cells = (\<lambda>_. 0)(0 := 1, 1 := 0, 2 := 0x80000000, 3 := 1, 4 := 1, 5 := 1,
        6 := 0x0F, 7 := 0, 8 := 1, 9 := 0xFF)\<rparr> (range_upto 10)
   = Some (True,
       \<lparr>cells = (\<lambda>_. 0)(0 := 1, 1 := 0, 2 := 0x80000000, 3 := 1, 4 := 1, 5 := 1,
          6 := 0x0F, 7 := 0, 8 := 1, 9 := 0xFF)\<rparr>,
       \<lparr>pc = 9, address_registers = (\<lambda>_. 0), registers = (\<lambda>_. 0)(0 := 0x80000000, 1 := 1),
        zero_flag = False, negative_flag = False, running = False\<rparr>)"
    by (simp add: run_eval range_upto_def fun_upd_twist)
  have h: "handle_cmp_execution \<lparr>cells = (\<lambda>_. 0)(0 := 0x0F, 1 := 0, 2 := 1)\<rparr>
       (cpu_init\<lparr>registers := (\<lambda>_. 0)(0 := 0x7FFFFFFF, 1 := 0xFFFFFFFF)\<rparr>)
     = (True, \<lparr>cells = (\<lambda>_. 0)(0 := 0x0F, 1 := 0, 2 := 1)\<rparr>,
        cpu_init\<lparr>registers := (\<lambda>_. 0)(0 := 0x7FFFFFFF, 1 := 0xFFFFFFFF),
          zero_flag := False, negative_flag := True, pc := 3\<rparr>)"
    by (simp add: handle_cmp_execution_def get_value_in_ram_def cpu_init_def RAM_SIZE_def
        is_reg_index_valid_runtime_def MAX_REGISTERS_def increase_pc_def Let_def)
  show ?thesis
    using r h by simp
qed

text \<open>
  C3. For every execution of the divide instruction whose second operand resolves to zero,
  the handler returns failure, the run returns failure, \<^verbatim>\<open>running\<close> is cleared and every
  register keeps its value: the state returned is the state before the instruction with
  \<^verbatim>\<open>running\<close> cleared.
\<close>

theorem division_by_zero_fails:
  assumes "div_by_zero ram cpu" and "running cpu" and "pc cpu \<noteq> end_addr"
  shows "handle_div_execution ram cpu = (False, ram, cpu\<lparr>running := False\<rparr>)
       \<and> cpu_run_loop ram cpu end_addr = Some (False, ram, cpu\<lparr>running := False\<rparr>)
       \<and> registers (cpu\<lparr>running := False\<rparr>) = registers cpu"
proof -
  have h: "handle_div_execution ram cpu = (False, ram, cpu\<lparr>running := False\<rparr>)"
    using assms(1)
    by (auto simp: div_by_zero_def handle_div_execution_def resolve_src_value_def
        validator_defs mode_defs Let_def)
  moreover have "cpu_run_step ram cpu = handle_div_execution ram cpu"
    using assms(1) by (simp add: div_by_zero_def cpu_run_step_def ISA_defs Let_def)
  ultimately show ?thesis
    using assms(2,3) by (simp add: cpu_run_loop_fail)
qed

text \<open>Scenario B: the run reaches the divide with R0 = 10 and R1 = 0 and fails there.\<close>

theorem division_by_zero_fails_witness:
  "div_by_zero scenario_B
     (cpu_init\<lparr>pc := 6, registers := (\<lambda>_. 0)(0 := 10), zero_flag := True, running := True\<rparr>)
   \<and> cpu_run cpu_init scenario_B (range_upto 11)
     = Some (False, scenario_B,
         cpu_init\<lparr>pc := 6, registers := (\<lambda>_. 0)(0 := 10), zero_flag := True,
           running := False\<rparr>)"
proof -
  let ?cpu = "cpu_init\<lparr>pc := 6, registers := (\<lambda>_. 0)(0 := 10), zero_flag := True,
    running := True\<rparr>"
  have d: "div_by_zero scenario_B ?cpu"
    by (simp add: div_by_zero_def scenario_B_def get_value_in_ram_def cpu_init_def
        RAM_SIZE_def MAX_REGISTERS_def ISA_defs mode_defs)
  have r: "running ?cpu" and p: "pc ?cpu \<noteq> 11"
    by (simp_all add: cpu_init_def)
  have "cpu_run cpu_init scenario_B (range_upto 11) = cpu_run_loop scenario_B ?cpu 11"
    by (simp add: run_eval scenario_B_def range_upto_def fun_upd_idem)
  then show ?thesis
    using d division_by_zero_fails [OF d r p] by (simp add: cpu_init_def)
qed

text \<open>
  C5. For every instruction whose operand word is read as a general-register index and is 8
  or more, the handler returns failure, the run returns failure at once, \<^verbatim>\<open>running\<close> is
  cleared and no register is changed: the state returned is the state before the
  instruction with \<^verbatim>\<open>running\<close> cleared.
\<close>

theorem invalid_register_index_fails:
  assumes "register_operand_out_of_range ram cpu" and "running cpu" and "pc cpu \<noteq> end_addr"
  shows "cpu_run_step ram cpu = (False, ram, cpu\<lparr>running := False\<rparr>)
       \<and> cpu_run_loop ram cpu end_addr = Some (False, ram, cpu\<lparr>running := False\<rparr>)
       \<and> registers (cpu\<lparr>running := False\<rparr>) = registers cpu"
  using assms step_bad_register [OF assms(1)] by (simp add: cpu_run_loop_fail)

text \<open>\<^verbatim>\<open>LOADI R8, 5\<close> and \<^verbatim>\<open>ADD R0, R9\<close>, as memory words.\<close>

theorem invalid_register_index_fails_witness:
  "register_operand_out_of_range \<lparr>cells = (\<lambda>_. 0)(0 := 1, 1 := 8, 2 := 5)\<rparr>
     (cpu_init\<lparr>running := True\<rparr>)
   \<and> cpu_run cpu_init \<lparr>cells = (\<lambda>_. 0)(0 := 1, 1 := 8, 2 := 5)\<rparr> (range_upto 3)
     = Some (False, \<lparr>cells = (\<lambda>_. 0)(0 := 1, 1 := 8, 2 := 5)\<rparr>, cpu_init)
   \<and> cpu_run cpu_init \<lparr>cells = (\<lambda>_. 0)(0 := 5, 1 := 0, 2 := 0, 3 := 9)\<rparr> (range_upto 4)
     = Some (False, \<lparr>cells = (\<lambda>_. 0)(0 := 5, 1 := 0, 2 := 0, 3 := 9)\<rparr>, cpu_init)"
proof -
  let ?cpu = "cpu_init\<lparr>running := True\<rparr>"
  let ?r1 = "\<lparr>cells = (\<lambda>_. 0)(0 := 1, 1 := 8, 2 := 5)\<rparr>"
  let ?r2 = "\<lparr>cells = (\<lambda>_. 0)(0 := 5, 1 := 0, 2 := 0, 3 := 9)\<rparr>"
  have f1: "register_operand_out_of_range ?r1 ?cpu"
    by (simp add: register_operand_out_of_range_def get_value_in_ram_def cpu_init_def
        RAM_SIZE_def MAX_REGISTERS_def ISA_defs)
  have f2: "register_operand_out_of_range ?r2 ?cpu"
    by (simp add: register_operand_out_of_range_def is_arith_opcode_def get_value_in_ram_def
        cpu_init_def RAM_SIZE_def MAX_REGISTERS_def ISA_defs mode_defs)
  have r: "running ?cpu" by simp
  have p3: "pc ?cpu \<noteq> 3" and p4: "pc ?cpu \<noteq> 4" by (simp_all add: cpu_init_def)
  show ?thesis
    using f1 invalid_register_index_fails [OF f1 r p3] invalid_register_index_fails [OF f2 r p4]
    by (simp add: cpu_run_def range_upto_def cpu_init_def)
qed

text \<open>
  C10. For every fetch at an index \<open>pc + skip\<close> of 65536 or more (the index as the accessor
  computes it, in 32 bits, which is the exact sum whenever that fits), whatever the offset
  and whatever the instruction: the accessor returns 0 and leaves the memory and the
  processor state, \<^verbatim>\<open>running\<close> with it, as they were; and the step goes on with 0 as the
  word fetched at that offset. The dispatch and each of the fifteen handlers do, from the
  processor state before the fetch, what they do with the words fetched, the one at that
  offset being 0. The fetch is no failure: a step that succeeds on an instruction other
  than halt leaves \<^verbatim>\<open>running\<close> as it was, and \<^verbatim>\<open>running\<close> is cleared only where the
  handler or the dispatch clears it for a word 0 read from the memory.
\<close>

theorem out_of_bounds_fetch:
  assumes "w = (get_value_in_ram ram cpu)(skip := 0)"
  shows "(RAM_SIZE \<le> unat (pc cpu + skip) \<longrightarrow>
            get_value_in_ram ram cpu skip = 0
          \<and> get_value_in_ram_call ram cpu skip = (0, ram, cpu)
          \<and> running (snd (snd (get_value_in_ram_call ram cpu skip))) = running cpu
          \<and> cpu_run_step ram cpu = step_on_words w ram cpu
          \<and> handle_loadi_execution ram cpu = loadi_on_words w ram cpu
          \<and> handle_loada_execution ram cpu = loada_on_words w ram cpu
          \<and> handle_loadm_execution ram cpu = loadm_on_words w ram cpu
          \<and> handle_storem_execution ram cpu = storem_on_words w ram cpu
          \<and> handle_add_execution ram cpu = binop_on_words (\<lambda>a src_value. a + src_value) w ram cpu
          \<and> handle_sub_execution ram cpu = binop_on_words (\<lambda>a src_value. a - src_value) w ram cpu
          \<and> handle_mlp_execution ram cpu =
              binop_on_words
                (\<lambda>a src_value.
                   (let wide = (ucast a :: 64 word) * (ucast src_value :: 64 word) in
                    (ucast (wide AND 0xFFFFFFFF) :: u32))) w ram cpu
          \<and> handle_div_execution ram cpu = div_on_words w ram cpu
          \<and> handle_and_execution ram cpu = binop_on_words (\<lambda>a src_value. a AND src_value) w ram cpu
          \<and> handle_or_execution ram cpu = binop_on_words (\<lambda>a src_value. a OR src_value) w ram cpu
          \<and> handle_xor_execution ram cpu = binop_on_words (\<lambda>a src_value. a XOR src_value) w ram cpu
          \<and> handle_jmp_execution ram cpu = jmp_on_words w ram cpu
          \<and> handle_jz_execution ram cpu = jz_on_words w ram cpu
          \<and> handle_jnz_execution ram cpu = jnz_on_words w ram cpu
          \<and> handle_cmp_execution ram cpu = cmp_on_words w ram cpu)
       \<and> get_value_in_ram ram cpu skip = fst (get_value_in_ram_call ram cpu skip)
       \<and> (RAM_SIZE \<le> unat (pc cpu) + unat skip \<and> unat (pc cpu) + unat skip < 2 ^ 32 \<longrightarrow>
            RAM_SIZE \<le> unat (pc cpu + skip))
       \<and> (cpu_run_step ram cpu = (True, ram', cpu') \<and> get_value_in_ram ram cpu 0 \<noteq> ISA_HALT \<longrightarrow>
            running cpu' = running cpu)"
proof -
  have c: "get_value_in_ram_call ram cpu skip = (0, ram, cpu)"
    if "RAM_SIZE \<le> unat (pc cpu + skip)"
    using that by (simp add: get_value_in_ram_call_def)
  have f: "get_value_in_ram ram cpu skip = fst (get_value_in_ram_call ram cpu skip)"
    by (simp add: get_value_in_ram_def get_value_in_ram_call_def Let_def)
  have z: "get_value_in_ram ram cpu skip = 0" and e: "w = get_value_in_ram ram cpu"
    if "RAM_SIZE \<le> unat (pc cpu + skip)"
    using that assms fetched_zero [OF that, of ram]
    by (simp_all add: get_value_in_ram_def)
  have x: "RAM_SIZE \<le> unat (pc cpu + skip)"
    if "RAM_SIZE \<le> unat (pc cpu) + unat skip" "unat (pc cpu) + unat skip < 2 ^ 32"
    using that by (simp add: unat_word_ariths)
  have r: "running cpu' = running cpu"
    if "cpu_run_step ram cpu = (True, ram', cpu')" "get_value_in_ram ram cpu 0 \<noteq> ISA_HALT"
    using that by (rule cpu_run_step_running)
  show ?thesis
  proof (intro conjI impI)
    assume "RAM_SIZE \<le> unat (pc cpu) + unat skip \<and> unat (pc cpu) + unat skip < 2 ^ 32"
    then show "RAM_SIZE \<le> unat (pc cpu + skip)" using x by blast
  next
    assume "cpu_run_step ram cpu = (True, ram', cpu') \<and> get_value_in_ram ram cpu 0 \<noteq> ISA_HALT"
    then show "running cpu' = running cpu" using r by blast
  next
    assume "RAM_SIZE \<le> unat (pc cpu + skip)"
    then show "get_value_in_ram_call ram cpu skip = (0, ram, cpu)" by (rule c)
  next
    assume "RAM_SIZE \<le> unat (pc cpu + skip)"
    then show "running (snd (snd (get_value_in_ram_call ram cpu skip))) = running cpu"
      by (simp add: c)
  next
    show "get_value_in_ram ram cpu skip = fst (get_value_in_ram_call ram cpu skip)" by (rule f)
  qed (simp_all only: z e cpu_run_step_on_words handlers_on_words
        handle_add_execution_def handle_sub_execution_def handle_mlp_execution_def
        handle_and_execution_def handle_or_execution_def handle_xor_execution_def)
qed

text \<open>
  A load-immediate at address 65534 whose immediate word lies beyond the memory loads 0 and
  succeeds; a jump in the last cell, whose target word lies beyond the memory, jumps to
  address 0; an opcode fetched at address 65537 is the word 0, no opcode, for which the
  dispatch takes its invalid-instruction branch. The memory cells hold 7 elsewhere, so the 0
  is not read from the memory.
\<close>

theorem out_of_bounds_fetch_witness:
  "get_value_in_ram \<lparr>cells = (\<lambda>_. 7)(65534 := 1, 65535 := 2)\<rparr>
       (cpu_init\<lparr>pc := 65534, registers := (\<lambda>_. 9), running := True\<rparr>) 2 = 0
   \<and> get_value_in_ram_call \<lparr>cells = (\<lambda>_. 7)(65534 := 1, 65535 := 2)\<rparr>
       (cpu_init\<lparr>pc := 65534, registers := (\<lambda>_. 9), running := True\<rparr>) 2
      = (0, \<lparr>cells = (\<lambda>_. 7)(65534 := 1, 65535 := 2)\<rparr>,
         cpu_init\<lparr>pc := 65534, registers := (\<lambda>_. 9), running := True\<rparr>)
   \<and> cpu_run_step \<lparr>cells = (\<lambda>_. 7)(65534 := 1, 65535 := 2)\<rparr>
        (cpu_init\<lparr>pc := 65534, registers := (\<lambda>_. 9), running := True\<rparr>)
      = (True, \<lparr>cells = (\<lambda>_. 7)(65534 := 1, 65535 := 2)\<rparr>,
         cpu_init\<lparr>pc := 65537, registers := (\<lambda>_. 9)(2 := 0), zero_flag := True,
           running := True\<rparr>)
   \<and> cpu_run_step \<lparr>cells = (\<lambda>_. 7)(65535 := 0x0C)\<rparr>
        (cpu_init\<lparr>pc := 65535, running := True\<rparr>)
      = (True, \<lparr>cells = (\<lambda>_. 7)(65535 := 0x0C)\<rparr>, cpu_init\<lparr>pc := 0, running := True\<rparr>)
   \<and> cpu_run_step \<lparr>cells = (\<lambda>_. 7)\<rparr> (cpu_init\<lparr>pc := 65537, running := True\<rparr>)
      = (False, \<lparr>cells = (\<lambda>_. 7)\<rparr>, cpu_init\<lparr>pc := 65537\<rparr>)"
  using out_of_bounds_fetch
      [OF refl, of "cpu_init\<lparr>pc := 65534, registers := (\<lambda>_. 9), running := True\<rparr>" 2
          "\<lparr>cells = (\<lambda>_. 7)(65534 := 1, 65535 := 2)\<rparr>"]
    out_of_bounds_fetch
      [OF refl, of "cpu_init\<lparr>pc := 65535, running := True\<rparr>" 1
          "\<lparr>cells = (\<lambda>_. 7)(65535 := 0x0C)\<rparr>"]
    out_of_bounds_fetch
      [OF refl, of "cpu_init\<lparr>pc := 65537, running := True\<rparr>" 0 "\<lparr>cells = (\<lambda>_. 7)\<rparr>"]
  by (simp add: cpu_init_def RAM_SIZE_def MAX_REGISTERS_def get_value_in_ram_def
      get_value_in_ram_call_def step_on_words_def on_words_defs validator_defs ISA_defs
      increase_pc_def Let_def)

section \<open>Interpreter: the run flag\<close>

text \<open>
  C2 as stated: at every point during and after a run, \<^verbatim>\<open>running\<close> is false if and only if
  execution has stopped, by a halt instruction, by the program counter reaching the end
  address, or by a fatal error. It fails for a run that stops at the end address: the loop
  of \<^verbatim>\<open>cpu_run\<close> is left because \<^verbatim>\<open>cpu->pc != end_address\<close> no longer holds, and nothing
  clears \<^verbatim>\<open>running\<close>. The program \<^verbatim>\<open>LOADI R0,5\<close> alone, assembled into \<open>[0, 3)\<close>, returns
  success with \<^verbatim>\<open>running\<close> still set.
\<close>

theorem running_after_run_counterexample:
  "cpu_run cpu_init \<lparr>cells = (\<lambda>_. 0)(0 := 1, 1 := 0, 2 := 5)\<rparr> (range_upto 3)
   = Some (True, \<lparr>cells = (\<lambda>_. 0)(0 := 1, 1 := 0, 2 := 5)\<rparr>,
       \<lparr>pc = 3, address_registers = (\<lambda>_. 0), registers = (\<lambda>_. 0)(0 := 5),
        zero_flag = False, negative_flag = False, running = True\<rparr>)"
  by (simp add: run_eval range_upto_def)

text \<open>
  C2, amended: executing a halt instruction makes the run return success with \<^verbatim>\<open>running\<close>
  false. When a run returns success, \<^verbatim>\<open>running\<close> is true if and only if the program counter
  is the end address: it is still true when the run stopped because the program counter
  reached the end address, and it is false exactly when the run stopped on a halt
  instruction, at which the program counter then still points. When a run returns failure,
  \<^verbatim>\<open>running\<close> is false: after a failed run-time validation, an unknown opcode or a zero
  divisor. One failure is left out, of which nothing is said: that of an arithmetic or
  bitwise instruction with a valid destination register index whose operand-mode tag is
  neither register nor numeric.
\<close>

theorem running_after_run:
  assumes "cpu_run cpu ram assembly_range = Some (ok, ram', cpu')"
  shows "(ok \<longrightarrow> (running cpu' \<longleftrightarrow> pc cpu' = end_address assembly_range)
               \<and> (\<not> running cpu' \<longrightarrow> get_value_in_ram ram' cpu' 0 = ISA_HALT))
       \<and> (\<not> ok \<longrightarrow> \<not> operand_mode_fault ram' cpu' \<longrightarrow> \<not> running cpu')
       \<and> (running st \<and> pc st \<noteq> e \<and> get_value_in_ram mem st 0 = ISA_HALT \<longrightarrow>
            cpu_run_loop mem st e = Some (True, mem, st\<lparr>running := False\<rparr>))"
proof -
  have "cpu_run_loop mem st e = Some (True, mem, st\<lparr>running := False\<rparr>)"
    if "running st" "pc st \<noteq> e" "get_value_in_ram mem st 0 = ISA_HALT"
  proof -
    have "cpu_run_step mem st = (True, mem, st\<lparr>running := False\<rparr>)"
      using that(3) by (simp add: cpu_run_step_def ISA_defs)
    then have "cpu_run_loop mem st e = cpu_run_loop mem (st\<lparr>running := False\<rparr>) e"
      using that(1,2) by (rule cpu_run_loop_continue [rotated 2])
    then show ?thesis by (simp add: cpu_run_loop_stop)
  qed
  then show ?thesis
    using cpu_run_loop_result_aux [OF assms [unfolded cpu_run_def]]
    by (auto simp: run_post_def)
qed

text \<open>
  Scenario A stops on its halt instruction at address 10, before the end address 11, with
  R0 = 8 and \<^verbatim>\<open>running\<close> false; scenario B fails on its division with \<^verbatim>\<open>running\<close> cleared;
  \<^verbatim>\<open>ADD R9, ?\<close> with the operand-mode tag 2 fails on its destination index with \<^verbatim>\<open>running\<close>
  cleared, and is no operand-mode fault.
\<close>

theorem running_after_run_witness:
  "cpu_run cpu_init scenario_A (range_upto 11)
   = Some (True, scenario_A,
       \<lparr>pc = 10, address_registers = (\<lambda>_. 0), registers = (\<lambda>_. 0)(0 := 8, 1 := 3),
        zero_flag = False, negative_flag = False, running = False\<rparr>)
   \<and> get_value_in_ram scenario_A
       \<lparr>pc = 10, address_registers = (\<lambda>_. 0), registers = (\<lambda>_. 0)(0 := 8, 1 := 3),
        zero_flag = False, negative_flag = False, running = False\<rparr> 0 = ISA_HALT
   \<and> cpu_run cpu_init scenario_B (range_upto 11)
   = Some (False, scenario_B,
       \<lparr>pc = 6, address_registers = (\<lambda>_. 0), registers = (\<lambda>_. 0)(0 := 10),
        zero_flag = True, negative_flag = False, running = False\<rparr>)
   \<and> \<not> operand_mode_fault scenario_B
       \<lparr>pc = 6, address_registers = (\<lambda>_. 0), registers = (\<lambda>_. 0)(0 := 10),
        zero_flag = True, negative_flag = False, running = False\<rparr>
   \<and> cpu_run cpu_init \<lparr>cells = (\<lambda>_. 0)(0 := 5, 1 := 9, 2 := 2, 3 := 0)\<rparr> (range_upto 4)
   = Some (False, \<lparr>cells = (\<lambda>_. 0)(0 := 5, 1 := 9, 2 := 2, 3 := 0)\<rparr>, cpu_init)
   \<and> \<not> operand_mode_fault \<lparr>cells = (\<lambda>_. 0)(0 := 5, 1 := 9, 2 := 2, 3 := 0)\<rparr> cpu_init
   \<and> \<not> running cpu_init"
proof -
  have a: "cpu_run cpu_init scenario_A (range_upto 11)
   = Some (True, scenario_A,
       \<lparr>pc = 10, address_registers = (\<lambda>_. 0), registers = (\<lambda>_. 0)(0 := 8, 1 := 3),
        zero_flag = False, negative_flag = False, running = False\<rparr>)"
    by (simp add: run_eval scenario_A_def range_upto_def fun_upd_twist)
  have b: "cpu_run cpu_init scenario_B (range_upto 11)
   = Some (False, scenario_B,
       \<lparr>pc = 6, address_registers = (\<lambda>_. 0), registers = (\<lambda>_. 0)(0 := 10),
        zero_flag = True, negative_flag = False, running = False\<rparr>)"
    by (simp add: run_eval scenario_B_def range_upto_def fun_upd_idem)
  have m: "\<not> operand_mode_fault scenario_B
       \<lparr>pc = 6, address_registers = (\<lambda>_. 0), registers = (\<lambda>_. 0)(0 := 10),
        zero_flag = True, negative_flag = False, running = False\<rparr>"
    by (simp add: operand_mode_fault_def scenario_B_def get_value_in_ram_def RAM_SIZE_def
        mode_defs)
  have c: "cpu_run cpu_init \<lparr>cells = (\<lambda>_. 0)(0 := 5, 1 := 9, 2 := 2, 3 := 0)\<rparr> (range_upto 4)
   = Some (False, \<lparr>cells = (\<lambda>_. 0)(0 := 5, 1 := 9, 2 := 2, 3 := 0)\<rparr>, cpu_init)"
    by (simp add: run_eval range_upto_def)
  have n: "\<not> operand_mode_fault \<lparr>cells = (\<lambda>_. 0)(0 := 5, 1 := 9, 2 := 2, 3 := 0)\<rparr> cpu_init"
    by (simp add: operand_mode_fault_def get_value_in_ram_def cpu_init_def RAM_SIZE_def
        MAX_REGISTERS_def)
  show ?thesis
    using a b m c n running_after_run [OF a] running_after_run [OF b] running_after_run [OF c]
    by simp
qed

text \<open>
  The failure that the amended claim leaves out: the last branch of the operand resolution
  of the arithmetic handlers logs and returns false without clearing \<^verbatim>\<open>running\<close>, unlike
  every other failing branch. \<^verbatim>\<open>ADD\<close> with the destination R0 and the operand-mode tag 2
  makes the run return failure with \<^verbatim>\<open>running\<close> still set.
\<close>

lemma operand_mode_fault_keeps_running:
  "cpu_run cpu_init \<lparr>cells = (\<lambda>_. 0)(0 := 5, 1 := 0, 2 := 2, 3 := 0)\<rparr> (range_upto 4)
   = Some (False, \<lparr>cells = (\<lambda>_. 0)(0 := 5, 1 := 0, 2 := 2, 3 := 0)\<rparr>,
       cpu_init\<lparr>running := True\<rparr>)"
  by (simp add: run_eval range_upto_def)

section \<open>The word counts of the two passes and of the interpreter\<close>

text \<open>
  C1 as stated: for every opcode, the word count of the first pass (compare 3, halt 1, and
  so on) equals the number of words the second pass emits and the amount by which the
  interpreter advances the program counter after a successful execution that is not a taken
  control transfer. It fails for two opcodes. For compare, the sizing \<^verbatim>\<open>switch\<close> of the first
  pass has no case and its default counts 1 word, while the second pass emits 3. For halt,
  both passes count 1 word, and the interpreter executes it without moving the program
  counter.
\<close>

theorem word_counts_counterexample:
  "first_pass_size (uint ISA_CMP) = 1
   \<and> second_pass_emit ram_init cpu_init (uint ISA_CMP) (Some ''R0'') (Some ''R1'') []
       = Some (True, \<lparr>cells = (\<lambda>_. 0)(0 := 0x0F, 1 := 0, 2 := 1)\<rparr>, cpu_init\<lparr>pc := 3\<rparr>)
   \<and> first_pass_size (uint ISA_HALT) = 1
   \<and> cpu_run_step \<lparr>cells = (\<lambda>_. 0)(0 := 0xFF)\<rparr> (cpu_init\<lparr>running := True\<rparr>)
       = (True, \<lparr>cells = (\<lambda>_. 0)(0 := 0xFF)\<rparr>, cpu_init\<lparr>pc := 0\<rparr>)"
  by (simp add: asm_eval ram_init_def cpu_init_def cpu_run_step_def get_value_in_ram_def)

text \<open>
  C1, amended. For every opcode of the instruction set: unless it is compare, the first
  pass advances its cursor by the word count of the opcode; the second pass, when it
  succeeds, makes exactly that number of calls of \<^verbatim>\<open>emit\<close> (3 for compare), the first with
  the opcode, and leaves the program counter that many words further, and when it fails it
  has emitted nothing; the interpreter, after a successful execution that is not a taken
  control transfer, has advanced the program counter by that number (3 for compare),
  except for halt, which leaves the program counter where it is.
\<close>

theorem word_counts_agree:
  assumes "opcode \<in> set (map snd opcode_table)"
  shows "(opcode \<noteq> ISA_CMP \<longrightarrow> first_pass_size (uint opcode) = spec_word_count opcode)
       \<and> (second_pass_emit ram cpu (uint opcode) op1 op2 labels = Some (True, ram', cpu') \<longrightarrow>
            (\<exists>ws. length ws = unat (spec_word_count opcode) \<and> hd ws = opcode \<and>
                  emit_all ram cpu ws = Some (ram', cpu'))
            \<and> pc cpu' = pc cpu + spec_word_count opcode)
       \<and> (second_pass_emit ram cpu (uint opcode) op1 op2 labels = Some (False, ram', cpu') \<longrightarrow>
            ram' = ram \<and> cpu' = cpu)
       \<and> (get_value_in_ram mem st 0 = opcode \<and> cpu_run_step mem st = (True, mem', st') \<and>
          \<not> taken_transfer opcode st \<longrightarrow>
            pc st' = pc st + (if opcode = ISA_HALT then 0 else spec_word_count opcode))"
proof -
  have a: "opcode \<noteq> ISA_CMP \<longrightarrow> first_pass_size (uint opcode) = spec_word_count opcode"
    using first_pass_size_agrees [OF assms] by simp
  have e: "emitted (unat (spec_word_count opcode)) opcode ram cpu
             (second_pass_emit ram cpu (uint opcode) op1 op2 labels)"
    by (rule second_pass_emitted [OF assms])
  have b: "(\<exists>ws. length ws = unat (spec_word_count opcode) \<and> hd ws = opcode \<and>
                  emit_all ram cpu ws = Some (ram', cpu'))
            \<and> pc cpu' = pc cpu + spec_word_count opcode"
    if s: "second_pass_emit ram cpu (uint opcode) op1 op2 labels = Some (True, ram', cpu')"
  proof -
    from e s obtain ws where ws: "length ws = unat (spec_word_count opcode)" "hd ws = opcode"
      "emit_all ram cpu ws = Some (ram', cpu')"
      by (auto simp: emitted_def)
    from emit_all_Some [OF ws(3)] have "pc cpu' = pc cpu + of_nat (length ws)" by simp
    with ws show ?thesis by auto
  qed
  have c: "ram' = ram \<and> cpu' = cpu"
    if "second_pass_emit ram cpu (uint opcode) op1 op2 labels = Some (False, ram', cpu')"
    using e that by (simp add: emitted_def)
  have d: "pc st' = pc st + (if opcode = ISA_HALT then 0 else spec_word_count opcode)"
    if "get_value_in_ram mem st 0 = opcode" "cpu_run_step mem st = (True, mem', st')"
      "\<not> taken_transfer opcode st"
    using interpreter_advance [OF assms that] .
  from a b c d show ?thesis by blast
qed

text \<open>\<^verbatim>\<open>ADD R0, #1\<close>: 4 words in the first pass, 4 words emitted, 4 words advanced.\<close>

theorem word_counts_agree_witness:
  "ISA_ADD \<in> set (map snd opcode_table)
   \<and> first_pass_size (uint ISA_ADD) = 4
   \<and> second_pass_emit ram_init cpu_init (uint ISA_ADD) (Some ''R0'') (Some ''#1'') []
       = Some (True, \<lparr>cells = (\<lambda>_. 0)(0 := 5, 1 := 0, 2 := 1, 3 := 1)\<rparr>, cpu_init\<lparr>pc := 4\<rparr>)
   \<and> pc (cpu_init\<lparr>pc := 4\<rparr>) = pc cpu_init + 4
   \<and> second_pass_emit ram_init cpu_init (uint ISA_ADD) (Some ''R9'') (Some ''#1'') []
       = Some (False, ram_init, cpu_init)
   \<and> cpu_run_step \<lparr>cells = (\<lambda>_. 0)(0 := 5, 1 := 0, 2 := 1, 3 := 1)\<rparr> cpu_init
       = (True, \<lparr>cells = (\<lambda>_. 0)(0 := 5, 1 := 0, 2 := 1, 3 := 1)\<rparr>,
          cpu_init\<lparr>registers := (\<lambda>_. 0)(0 := 1), pc := 4\<rparr>)"
proof -
  have m: "ISA_ADD \<in> set (map snd opcode_table)"
    by (simp add: opcode_table_def)
  have s: "second_pass_emit ram_init cpu_init (uint ISA_ADD) (Some ''R0'') (Some ''#1'') []
       = Some (True, \<lparr>cells = (\<lambda>_. 0)(0 := 5, 1 := 0, 2 := 1, 3 := 1)\<rparr>, cpu_init\<lparr>pc := 4\<rparr>)"
    by (simp add: asm_eval ram_init_def cpu_init_def)
  have f: "second_pass_emit ram_init cpu_init (uint ISA_ADD) (Some ''R9'') (Some ''#1'') []
       = Some (False, ram_init, cpu_init)"
    by (simp add: asm_eval ram_init_def cpu_init_def)
  have r: "cpu_run_step \<lparr>cells = (\<lambda>_. 0)(0 := 5, 1 := 0, 2 := 1, 3 := 1)\<rparr> cpu_init
       = (True, \<lparr>cells = (\<lambda>_. 0)(0 := 5, 1 := 0, 2 := 1, 3 := 1)\<rparr>,
          cpu_init\<lparr>registers := (\<lambda>_. 0)(0 := 1), pc := 4\<rparr>)"
    by (simp add: run_eval)
  show ?thesis
    using m s f r
      word_counts_agree [OF m, of ram_init cpu_init "Some ''R0''" "Some ''#1''" "[]"
        "\<lparr>cells = (\<lambda>_. 0)(0 := 5, 1 := 0, 2 := 1, 3 := 1)\<rparr>" "cpu_init\<lparr>pc := 4\<rparr>"
        "\<lparr>cells = (\<lambda>_. 0)(0 := 5, 1 := 0, 2 := 1, 3 := 1)\<rparr>" cpu_init
        "\<lparr>cells = (\<lambda>_. 0)(0 := 5, 1 := 0, 2 := 1, 3 := 1)\<rparr>"
        "cpu_init\<lparr>registers := (\<lambda>_. 0)(0 := 1), pc := 4\<rparr>"]
      word_counts_agree [OF m, of ram_init cpu_init "Some ''R9''" "Some ''#1''" "[]"
        ram_init cpu_init]
    by (simp add: spec_word_count_def is_arith_opcode_def ISA_defs cpu_init_def)
qed

text \<open>
  What the missing case costs: a label after a compare is bound 2 words too low. In
  \<^verbatim>\<open>CMP R0, R1\<close> / \<^verbatim>\<open>JZ end\<close> / \<^verbatim>\<open>end: HALT\<close> the halt is emitted at address 5, and the
  jump is assembled with the target 3, its own address.
\<close>

lemma compare_shifts_labels:
  "assemble ram_init cpu_init
     (Some [''CMP R0, R1'' @ [CHR 0x0A], ''JZ end'' @ [CHR 0x0A], ''end: HALT'' @ [CHR 0x0A]])
   = Some (range_upto 6,
       \<lparr>cells = (\<lambda>_. 0)(0 := 0x0F, 1 := 0, 2 := 1, 3 := 0x0D, 4 := 3, 5 := 0xFF)\<rparr>,
       cpu_init\<lparr>pc := 6\<rparr>)"
  by (simp add: asm_eval ram_init_def cpu_init_def range_upto_def)

text \<open>Scenario A assembles into the memory image used above.\<close>

lemma assemble_scenario_A:
  "assemble ram_init cpu_init
     (Some [''LOADI R0, 5'' @ [CHR 0x0A], ''LOADI R1, 3'' @ [CHR 0x0A],
            ''ADD R0, R1'' @ [CHR 0x0A], ''HALT'' @ [CHR 0x0A]])
   = Some (range_upto 11, scenario_A, cpu_init\<lparr>pc := 11\<rparr>)"
  by (simp add: asm_eval ram_init_def cpu_init_def scenario_A_def range_upto_def)

text \<open>
  The source \<^verbatim>\<open>LOADI R0, 0x80000000\<close> / \<^verbatim>\<open>LOADI R1, 1\<close> / \<^verbatim>\<open>CMP R0, R1\<close> / \<^verbatim>\<open>HALT\<close>
  assembles into the range \<open>[0, 10)\<close>: the memory image on which the compare instruction
  meets \<open>-2147483648\<close> and \<open>1\<close>.
\<close>

lemma assemble_compare_overflow:
  "assemble ram_init cpu_init
     (Some [''LOADI R0, 0x80000000'' @ [CHR 0x0A], ''LOADI R1, 1'' @ [CHR 0x0A],
            ''CMP R0, R1'' @ [CHR 0x0A], ''HALT'' @ [CHR 0x0A]])
   = Some (range_upto 10,
       \<lparr>cells = (\<lambda>_. 0)(0 := 1, 1 := 0, 2 := 0x80000000, 3 := 1, 4 := 1, 5 := 1,
          6 := 0x0F, 7 := 0, 8 := 1, 9 := 0xFF)\<rparr>,
       cpu_init\<lparr>pc := 10\<rparr>)"
  by (simp add: asm_eval ram_init_def cpu_init_def range_upto_def)

text \<open>
  The assembler checks neither the operand of \<^verbatim>\<open>.org\<close> nor the program counter at which
  it emits: after \<^verbatim>\<open>.org 70000\<close> the first word is stored outside the memory array, where
  the behaviour of the C program is undefined.
\<close>

lemma origin_beyond_memory:
  "assemble ram_init cpu_init (Some [''.org 70000'', ''HALT'']) = None"
  by (simp add: asm_eval ram_init_def cpu_init_def)

end
